theory Spec2Isabelle
  imports
    Complex_Main
    "HOL-Library.Multiset"
    "HOL-Library.List_Lexorder"
    "HOL-Library.Char_ord"
begin

section \<open>Python values used by venue2playlist\<close>

text \<open>
  Exceptions are values. Only the exception classes that the modelled functions can raise
  are listed; the string is the exception's message where the source gives one.
\<close>

datatype error =
    ValueError string
  | TypeError string
  | KeyError string
  | IndexError string
  | OverflowError string
  | ValidationError string

text \<open>
  A metadata value (\<^verbatim>\<open>dict[str, Any]\<close> in \<^verbatim>\<open>models.py\<close>). The data sources of the repository
  store strings, \<^verbatim>\<open>None\<close> and lists of strings; integers, booleans, nested lists and
  dictionaries are kept as well, because lists and dictionaries are unhashable and make a
  set-membership test raise \<^verbatim>\<open>TypeError\<close>. Floats, tuples and other objects are not modelled.
\<close>

datatype pyval =
    VNone
  | VBool bool
  | VInt int
  | VStr string
  | VList "pyval list"
  | VDict "(string \<times> pyval) list"

fun hashable :: "pyval \<Rightarrow> bool" where
  "hashable (VList _) = False"
| "hashable (VDict _) = False"
| "hashable _ = True"

text \<open>Python's \<^verbatim>\<open>==\<close> on hashable values: \<^verbatim>\<open>bool\<close> is a subclass of \<^verbatim>\<open>int\<close>, so \<^verbatim>\<open>True == 1\<close>.\<close>

fun py_eq :: "pyval \<Rightarrow> pyval \<Rightarrow> bool" where
  "py_eq VNone VNone = True"
| "py_eq (VStr a) (VStr b) = (a = b)"
| "py_eq (VInt a) (VInt b) = (a = b)"
| "py_eq (VBool a) (VBool b) = (a = b)"
| "py_eq (VBool a) (VInt b) = ((if a then 1 else 0) = b)"
| "py_eq (VInt a) (VBool b) = (a = (if b then 1 else 0))"
| "py_eq _ _ = False"

text \<open>
  \<^verbatim>\<open>x in s\<close> for a set \<^verbatim>\<open>s\<close>, given by the list of its elements: hashing \<^verbatim>\<open>x\<close> comes first
  and raises \<^verbatim>\<open>TypeError\<close> for a list or a dictionary, whatever the set holds.
\<close>

definition set_contains :: "pyval list \<Rightarrow> pyval \<Rightarrow> error + bool" where
  "set_contains s x =
     (if hashable x then Inr (list_ex (py_eq x) s)
      else Inl (TypeError ''unhashable type''))"

text \<open>
  \<^verbatim>\<open>str.lower()\<close>. Strings are byte strings here, and only the ASCII letters are folded;
  Python also folds the letters beyond ASCII.
\<close>

definition lower_char :: "char \<Rightarrow> char" where
  "lower_char c =
     (case map_of (zip ''ABCDEFGHIJKLMNOPQRSTUVWXYZ'' ''abcdefghijklmnopqrstuvwxyz'') c of
        Some l \<Rightarrow> l
      | None \<Rightarrow> c)"

definition lower :: "string \<Rightarrow> string" where
  "lower s = map lower_char s"

subsection \<open>Formatting numbers\<close>

definition digit_char :: "nat \<Rightarrow> char" where
  "digit_char d = ''0123456789'' ! d"

fun str_nat :: "nat \<Rightarrow> string" where
  "str_nat n =
     (if n < 10 then [digit_char n] else str_nat (n div 10) @ [digit_char (n mod 10)])"

declare str_nat.simps [simp del]

text \<open>\<^verbatim>\<open>str(i)\<close> for an integer.\<close>

definition str_int :: "int \<Rightarrow> string" where
  "str_int i = (if i < 0 then ''-'' @ str_nat (nat (- i)) else str_nat (nat i))"

text \<open>Zero padding to a width, as \<^verbatim>\<open>%02d\<close> and \<^verbatim>\<open>%04d\<close> do.\<close>

definition zero_pad :: "nat \<Rightarrow> string \<Rightarrow> string" where
  "zero_pad w s = replicate (w - length s) (CHR ''0'') @ s"

text \<open>
  A Python float is modelled by the real number it denotes: comparisons of floats are exact
  on these numbers, and no NaN reaches the code below (the confidence score is validated to
  lie in \<open>[0, 1]\<close>, a NaN threshold is rejected by the constructor).

  \<^verbatim>\<open>f"{x:.2f}"\<close> rounds the exact value to the nearest hundredth, ties to the even
  neighbour, and prints it with two decimals.
\<close>

definition round_half_even :: "real \<Rightarrow> int" where
  "round_half_even x =
     (let n = \<lfloor>x\<rfloor>; r = x - of_int n
      in if r < 1 / 2 then n
         else if 1 / 2 < r then n + 1
         else if even n then n else n + 1)"

definition format_2f :: "real \<Rightarrow> string" where
  "format_2f x =
     (let h = nat (round_half_even (\<bar>x\<bar> * 100))
      in (if x < 0 then ''-'' else '''') @ str_nat (h div 100) @ ''.''
           @ zero_pad 2 (str_nat (h mod 100)))"

text \<open>
  Two built-in conversions of the Python runtime are parameters of the model: \<^verbatim>\<open>str()\<close> of
  a metadata value and \<^verbatim>\<open>repr()\<close> of a float (the shortest string that reads back as the
  same float, which an f-string without a format uses). They only build display strings.
\<close>

record py_builtins =
  py_str :: "pyval \<Rightarrow> string"
  py_repr_float :: "real \<Rightarrow> string"

subsection \<open>Dates\<close>

text \<open>\<^verbatim>\<open>datetime.date\<close>: compared as the triple (year, month, day).\<close>

record date =
  year :: int
  month :: int
  day :: int

definition date_le :: "date \<Rightarrow> date \<Rightarrow> bool" where
  "date_le a b =
     (year a < year b \<or>
      (year a = year b \<and> (month a < month b \<or> (month a = month b \<and> day a \<le> day b))))"

text \<open>\<^verbatim>\<open>str(d)\<close> is the ISO format; \<^verbatim>\<open>repr(d)\<close> is what \<^verbatim>\<open>str\<close> of a tuple of dates shows.\<close>

definition str_date :: "date \<Rightarrow> string" where
  "str_date d =
     zero_pad 4 (str_int (year d)) @ ''-'' @ zero_pad 2 (str_int (month d)) @ ''-''
       @ zero_pad 2 (str_int (day d))"

definition repr_date :: "date \<Rightarrow> string" where
  "repr_date d =
     ''datetime.date('' @ str_int (year d) @ '', '' @ str_int (month d) @ '', ''
       @ str_int (day d) @ '')''"

section \<open>Data model (\<^verbatim>\<open>models.py\<close>)\<close>

record Performance =
  artist_name :: string
  venue_name :: string
  city :: string
  country :: "string option"
  performance_date :: "date option"
  performance_date_range :: "(date \<times> date) option"
  source_name :: string
  source_reference :: string
  confidence_score :: real
  metadata :: "string \<rightharpoonup> pyval"

text \<open>\<^verbatim>\<open>Performance.has_valid_date\<close>\<close>

definition has_valid_date :: "Performance \<Rightarrow> bool" where
  "has_valid_date self = (performance_date self \<noteq> None \<or> performance_date_range self \<noteq> None)"

text \<open>
  \<^verbatim>\<open>Performance.overlaps_range\<close>. A \<^verbatim>\<open>date\<close> and a tuple of two dates are always truthy,
  so each \<^verbatim>\<open>if\<close> of the source tests for \<^verbatim>\<open>None\<close>.
\<close>

definition overlaps_range :: "Performance \<Rightarrow> date \<Rightarrow> date \<Rightarrow> bool" where
  "overlaps_range self start end =
     (case performance_date self of
        Some d \<Rightarrow> date_le start d \<and> date_le d end
      | None \<Rightarrow>
          (case performance_date_range self of
             Some (perf_start, perf_end) \<Rightarrow> date_le perf_start end \<and> date_le start perf_end
           | None \<Rightarrow> False))"

text \<open>\<^verbatim>\<open>ExcludedItem\<close>; its field \<^verbatim>\<open>name\<close> is \<open>item_name\<close> here.\<close>

record ExcludedItem =
  item_type :: string
  item_name :: string
  reason :: string
  filter_name :: "string option"

section \<open>Filters (\<^verbatim>\<open>filters/\<close>)\<close>

record FilterResult =
  included :: "Performance list"
  excluded :: "ExcludedItem list"

text \<open>The display name every filter gives an excluded record.\<close>

definition perf_label :: "Performance \<Rightarrow> string" where
  "perf_label perf = artist_name perf @ '' @ '' @ venue_name perf"

subsection \<open>Confidence filter (\<^verbatim>\<open>filters/confidence.py\<close>)\<close>

record ConfidenceFilter =
  min_confidence :: real

text \<open>\<^verbatim>\<open>ConfidenceFilter.__init__\<close>\<close>

definition ConfidenceFilter_init :: "real \<Rightarrow> error + ConfidenceFilter" where
  "ConfidenceFilter_init mc =
     (if \<not> (0 \<le> mc \<and> mc \<le> 1)
      then Inl (ValueError ''min_confidence must be between 0.0 and 1.0'')
      else Inr \<lparr>min_confidence = mc\<rparr>)"

definition ConfidenceFilter_name :: "py_builtins \<Rightarrow> ConfidenceFilter \<Rightarrow> string" where
  "ConfidenceFilter_name B self = ''confidence(>='' @ py_repr_float B (min_confidence self) @ '')''"

definition ConfidenceFilter_item :: "py_builtins \<Rightarrow> ConfidenceFilter \<Rightarrow> Performance \<Rightarrow> ExcludedItem" where
  "ConfidenceFilter_item B self perf =
     \<lparr>item_type = ''performance'',
      item_name = perf_label perf,
      reason = ''Confidence '' @ format_2f (confidence_score perf) @ '' below threshold ''
                 @ py_repr_float B (min_confidence self),
      filter_name = Some (ConfidenceFilter_name B self)\<rparr>"

text \<open>The \<^verbatim>\<open>for\<close> loop of \<^verbatim>\<open>ConfidenceFilter.apply\<close>, with its two accumulators.\<close>

fun ConfidenceFilter_loop ::
  "py_builtins \<Rightarrow> ConfidenceFilter \<Rightarrow> Performance list \<Rightarrow> Performance list \<Rightarrow> ExcludedItem list
     \<Rightarrow> FilterResult" where
  "ConfidenceFilter_loop B self [] inc exc = \<lparr>included = inc, excluded = exc\<rparr>"
| "ConfidenceFilter_loop B self (perf # rest) inc exc =
     (if confidence_score perf \<ge> min_confidence self
      then ConfidenceFilter_loop B self rest (inc @ [perf]) exc
      else ConfidenceFilter_loop B self rest inc (exc @ [ConfidenceFilter_item B self perf]))"

definition ConfidenceFilter_apply ::
  "py_builtins \<Rightarrow> ConfidenceFilter \<Rightarrow> Performance list \<Rightarrow> FilterResult" where
  "ConfidenceFilter_apply B self performances = ConfidenceFilter_loop B self performances [] []"

subsection \<open>Date-range filter (\<^verbatim>\<open>filters/date_range.py\<close>)\<close>

record DateRangeFilter =
  start_date :: date
  end_date :: date

definition DateRangeFilter_name :: "DateRangeFilter \<Rightarrow> string" where
  "DateRangeFilter_name self =
     ''date_range('' @ str_date (start_date self) @ '':'' @ str_date (end_date self) @ '')''"

definition DateRangeFilter_missing_item :: "DateRangeFilter \<Rightarrow> Performance \<Rightarrow> ExcludedItem" where
  "DateRangeFilter_missing_item self perf =
     \<lparr>item_type = ''performance'',
      item_name = perf_label perf,
      reason = ''No temporal evidence (missing date)'',
      filter_name = Some (DateRangeFilter_name self)\<rparr>"

text \<open>\<^verbatim>\<open>str(perf.performance_date or perf.performance_date_range)\<close>\<close>

definition date_str :: "Performance \<Rightarrow> string" where
  "date_str perf =
     (case performance_date perf of
        Some d \<Rightarrow> str_date d
      | None \<Rightarrow>
          (case performance_date_range perf of
             Some (a, b) \<Rightarrow> ''('' @ repr_date a @ '', '' @ repr_date b @ '')''
           | None \<Rightarrow> ''None''))"

definition DateRangeFilter_outside_item :: "DateRangeFilter \<Rightarrow> Performance \<Rightarrow> ExcludedItem" where
  "DateRangeFilter_outside_item self perf =
     \<lparr>item_type = ''performance'',
      item_name = perf_label perf,
      reason = ''Date '' @ date_str perf @ '' outside range '' @ str_date (start_date self)
                 @ '' to '' @ str_date (end_date self),
      filter_name = Some (DateRangeFilter_name self)\<rparr>"

text \<open>The \<^verbatim>\<open>for\<close> loop of \<^verbatim>\<open>DateRangeFilter.apply\<close>.\<close>

fun DateRangeFilter_loop ::
  "DateRangeFilter \<Rightarrow> Performance list \<Rightarrow> Performance list \<Rightarrow> ExcludedItem list
     \<Rightarrow> FilterResult" where
  "DateRangeFilter_loop self [] inc exc = \<lparr>included = inc, excluded = exc\<rparr>"
| "DateRangeFilter_loop self (perf # rest) inc exc =
     (if \<not> has_valid_date perf
      then DateRangeFilter_loop self rest inc (exc @ [DateRangeFilter_missing_item self perf])
      else if overlaps_range perf (start_date self) (end_date self)
      then DateRangeFilter_loop self rest (inc @ [perf]) exc
      else DateRangeFilter_loop self rest inc (exc @ [DateRangeFilter_outside_item self perf]))"

definition DateRangeFilter_apply :: "DateRangeFilter \<Rightarrow> Performance list \<Rightarrow> FilterResult" where
  "DateRangeFilter_apply self performances = DateRangeFilter_loop self performances [] []"

subsection \<open>Field filter (\<^verbatim>\<open>filters/field.py\<close>)\<close>

text \<open>
  The set \<^verbatim>\<open>allowed_values\<close> is the list of its elements in iteration order; every element
  of a Python set is hashable. \<open>normalized_allowed\<close> is the attribute
  \<^verbatim>\<open>_normalized_allowed\<close> that the constructor computes.
\<close>

record FieldFilter =
  field :: string
  allowed_values :: "pyval list"
  case_insensitive :: bool
  include_missing :: bool
  normalized_allowed :: "pyval list"

text \<open>\<^verbatim>\<open>v.lower() if isinstance(v, str) else v\<close>\<close>

definition lower_if_str :: "pyval \<Rightarrow> pyval" where
  "lower_if_str v = (case v of VStr s \<Rightarrow> VStr (lower s) | _ \<Rightarrow> v)"

text \<open>\<^verbatim>\<open>FieldFilter.__init__\<close>, with its defaults written by the caller.\<close>

definition FieldFilter_init :: "string \<Rightarrow> pyval list \<Rightarrow> bool \<Rightarrow> bool \<Rightarrow> FieldFilter" where
  "FieldFilter_init fld allowed ci im =
     \<lparr>field = fld,
      allowed_values = allowed,
      case_insensitive = ci,
      include_missing = im,
      normalized_allowed = (if ci then map lower_if_str allowed else allowed)\<rparr>"

text \<open>\<^verbatim>\<open>sep.join(xs)\<close>\<close>

fun str_join :: "string \<Rightarrow> string list \<Rightarrow> string" where
  "str_join sep [] = []"
| "str_join sep [x] = x"
| "str_join sep (x # y # ys) = x @ sep @ str_join sep (y # ys)"

definition FieldFilter_name :: "py_builtins \<Rightarrow> FieldFilter \<Rightarrow> string" where
  "FieldFilter_name B self =
     (let values_str = str_join '','' (map (py_str B) (sort_key (py_str B) (allowed_values self)))
      in ''field('' @ field self @ ''={'' @ values_str @ ''})'')"

text \<open>\<^verbatim>\<open>FieldFilter._normalize_value\<close>\<close>

definition normalize_value :: "FieldFilter \<Rightarrow> pyval \<Rightarrow> pyval" where
  "normalize_value self v = (if case_insensitive self then lower_if_str v else v)"

text \<open>
  \<^verbatim>\<open>any(self._normalize_value(v) in self._normalized_allowed for v in value)\<close>: it stops at
  the first element that matches, and an unhashable element met before that raises.
\<close>

fun any_allowed :: "FieldFilter \<Rightarrow> pyval list \<Rightarrow> error + bool" where
  "any_allowed self [] = Inr False"
| "any_allowed self (v # vs) =
     (case set_contains (normalized_allowed self) (normalize_value self v) of
        Inl e \<Rightarrow> Inl e
      | Inr True \<Rightarrow> Inr True
      | Inr False \<Rightarrow> any_allowed self vs)"

text \<open>\<^verbatim>\<open>FieldFilter._matches\<close>\<close>

definition matches :: "FieldFilter \<Rightarrow> pyval \<Rightarrow> error + bool" where
  "matches self v =
     (case v of
        VList vs \<Rightarrow> any_allowed self vs
      | _ \<Rightarrow> set_contains (normalized_allowed self) (normalize_value self v))"

text \<open>\<^verbatim>\<open>d.get(k)\<close>: \<^verbatim>\<open>None\<close> for a missing key.\<close>

definition dict_get :: "(string \<rightharpoonup> pyval) \<Rightarrow> string \<Rightarrow> pyval" where
  "dict_get d k = (case d k of None \<Rightarrow> VNone | Some v \<Rightarrow> v)"

definition FieldFilter_missing_item :: "py_builtins \<Rightarrow> FieldFilter \<Rightarrow> Performance \<Rightarrow> ExcludedItem" where
  "FieldFilter_missing_item B self perf =
     \<lparr>item_type = ''performance'',
      item_name = perf_label perf,
      reason = ''Missing metadata field '' @ [CHR 0x27] @ field self @ [CHR 0x27],
      filter_name = Some (FieldFilter_name B self)\<rparr>"

definition FieldFilter_value_item :: "py_builtins \<Rightarrow> FieldFilter \<Rightarrow> Performance \<Rightarrow> ExcludedItem" where
  "FieldFilter_value_item B self perf =
     \<lparr>item_type = ''performance'',
      item_name = perf_label perf,
      reason = ''Field '' @ [CHR 0x27] @ field self @ [CHR 0x27] @ '' value '' @ [CHR 0x27]
                 @ py_str B (dict_get (metadata perf) (field self)) @ [CHR 0x27]
                 @ '' not in allowed values'',
      filter_name = Some (FieldFilter_name B self)\<rparr>"

text \<open>The \<^verbatim>\<open>for\<close> loop of \<^verbatim>\<open>FieldFilter.apply\<close>; an exception of \<^verbatim>\<open>_matches\<close> ends it.\<close>

fun FieldFilter_loop ::
  "py_builtins \<Rightarrow> FieldFilter \<Rightarrow> Performance list \<Rightarrow> Performance list \<Rightarrow> ExcludedItem list
     \<Rightarrow> error + FilterResult" where
  "FieldFilter_loop B self [] inc exc = Inr \<lparr>included = inc, excluded = exc\<rparr>"
| "FieldFilter_loop B self (perf # rest) inc exc =
     (let field_value = dict_get (metadata perf) (field self)
      in if field_value = VNone
         then (if include_missing self
               then FieldFilter_loop B self rest (inc @ [perf]) exc
               else FieldFilter_loop B self rest inc (exc @ [FieldFilter_missing_item B self perf]))
         else (case matches self field_value of
                 Inl e \<Rightarrow> Inl e
               | Inr True \<Rightarrow> FieldFilter_loop B self rest (inc @ [perf]) exc
               | Inr False \<Rightarrow>
                   FieldFilter_loop B self rest inc (exc @ [FieldFilter_value_item B self perf])))"

definition FieldFilter_apply ::
  "py_builtins \<Rightarrow> FieldFilter \<Rightarrow> Performance list \<Rightarrow> error + FilterResult" where
  "FieldFilter_apply B self performances = FieldFilter_loop B self performances [] []"

subsection \<open>Filter chain (\<^verbatim>\<open>filters/__init__.py\<close>)\<close>

text \<open>The three implementations of the \<^verbatim>\<open>Filter\<close> protocol, and the dispatch of \<^verbatim>\<open>apply\<close>.\<close>

datatype Filter =
    ConfidenceF ConfidenceFilter
  | DateRangeF DateRangeFilter
  | FieldF FieldFilter

fun Filter_name :: "py_builtins \<Rightarrow> Filter \<Rightarrow> string" where
  "Filter_name B (ConfidenceF f) = ConfidenceFilter_name B f"
| "Filter_name B (DateRangeF f) = DateRangeFilter_name f"
| "Filter_name B (FieldF f) = FieldFilter_name B f"

fun Filter_apply :: "py_builtins \<Rightarrow> Filter \<Rightarrow> Performance list \<Rightarrow> error + FilterResult" where
  "Filter_apply B (ConfidenceF f) performances = Inr (ConfidenceFilter_apply B f performances)"
| "Filter_apply B (DateRangeF f) performances = Inr (DateRangeFilter_apply f performances)"
| "Filter_apply B (FieldF f) performances = FieldFilter_apply B f performances"

text \<open>
  \<^verbatim>\<open>FilterChain.apply\<close>: the chain is the list \<^verbatim>\<open>_filters\<close> that \<^verbatim>\<open>add\<close> appends to.
\<close>

fun FilterChain_loop ::
  "py_builtins \<Rightarrow> Filter list \<Rightarrow> Performance list \<Rightarrow> ExcludedItem list \<Rightarrow> error + FilterResult" where
  "FilterChain_loop B [] current all_excluded =
     Inr \<lparr>included = current, excluded = all_excluded\<rparr>"
| "FilterChain_loop B (f # fs) current all_excluded =
     (case Filter_apply B f current of
        Inl e \<Rightarrow> Inl e
      | Inr result \<Rightarrow> FilterChain_loop B fs (included result) (all_excluded @ excluded result))"

definition FilterChain_apply ::
  "py_builtins \<Rightarrow> Filter list \<Rightarrow> Performance list \<Rightarrow> error + FilterResult" where
  "FilterChain_apply B filters performances = FilterChain_loop B filters performances []"

section \<open>Track selection (\<^verbatim>\<open>spotify/strategies.py\<close>)\<close>

subsection \<open>Python built-ins the strategies use\<close>

text \<open>\<^verbatim>\<open>s.split(sep)\<close> for a one-character separator: never the empty list.\<close>

fun split_on :: "char \<Rightarrow> string \<Rightarrow> string list" where
  "split_on sep [] = [[]]"
| "split_on sep (c # cs) =
     (if c = sep then [] # split_on sep cs
      else (case split_on sep cs of
              p # ps \<Rightarrow> (c # p) # ps
            | [] \<Rightarrow> [[c]]))"

definition digit_of :: "char \<Rightarrow> nat option" where
  "digit_of c = map_of (zip ''0123456789'' [0, 1, 2, 3, 4, 5, 6, 7, 8, 9]) c"

text \<open>\<^verbatim>\<open>s.isdigit()\<close> on ASCII text.\<close>

definition isdigit :: "string \<Rightarrow> bool" where
  "isdigit s = (s \<noteq> [] \<and> list_all (\<lambda>c. digit_of c \<noteq> None) s)"

text \<open>
  \<^verbatim>\<open>int(s)\<close> for an ASCII string, in base 10: white space around the number (tab, line
  feed, vertical tab, form feed, carriage return, space) is dropped, one sign may lead, and
  single underscores may stand between digits. \<open>None\<close> is the \<^verbatim>\<open>ValueError\<close>. The
  interpreter's limit on the number of digits (4300 by default since Python 3.11) is not
  modelled.
\<close>

definition is_space :: "char \<Rightarrow> bool" where
  "is_space c = (c \<in> set [CHR 0x09, CHR 0x0A, CHR 0x0B, CHR 0x0C, CHR 0x0D, CHR 0x20])"

definition strip :: "string \<Rightarrow> string" where
  "strip s = rev (dropWhile is_space (rev (dropWhile is_space s)))"

fun int_digits :: "string \<Rightarrow> nat \<Rightarrow> nat option" where
  "int_digits [] acc = Some acc"
| "int_digits (c # cs) acc =
     (case digit_of c of
        Some d \<Rightarrow> int_digits cs (10 * acc + d)
      | None \<Rightarrow>
          (if c = CHR ''_''
           then (case cs of
                   [] \<Rightarrow> None
                 | c' # _ \<Rightarrow> (if digit_of c' = None then None else int_digits cs acc))
           else None))"

definition int_body :: "string \<Rightarrow> nat option" where
  "int_body s =
     (case s of
        [] \<Rightarrow> None
      | c # cs \<Rightarrow> (case digit_of c of None \<Rightarrow> None | Some d \<Rightarrow> int_digits cs d))"

definition py_int :: "string \<Rightarrow> int option" where
  "py_int s =
     (case strip s of
        [] \<Rightarrow> None
      | c # cs \<Rightarrow>
          (if c = CHR ''-'' then map_option (\<lambda>n. - int n) (int_body cs)
           else if c = CHR ''+'' then map_option int (int_body cs)
           else map_option int (int_body (c # cs))))"

text \<open>
  \<^verbatim>\<open>date(y, m, d)\<close> of CPython: the arguments are first converted to C integers, which
  raises \<^verbatim>\<open>OverflowError\<close> outside 32 bits (with a message that depends on the size), and
  then checked against the calendar, which raises \<^verbatim>\<open>ValueError\<close>.
\<close>

definition is_leap :: "int \<Rightarrow> bool" where
  "is_leap y = (y mod 4 = 0 \<and> (y mod 100 \<noteq> 0 \<or> y mod 400 = 0))"

definition days_in_month :: "int \<Rightarrow> int \<Rightarrow> int" where
  "days_in_month y m =
     (if m = 2 then (if is_leap y then 29 else 28)
      else if m = 4 \<or> m = 6 \<or> m = 9 \<or> m = 11 then 30
      else 31)"

definition c_int_ok :: "int \<Rightarrow> bool" where
  "c_int_ok v = (- (2 ^ 31) \<le> v \<and> v < 2 ^ 31)"

definition date_new :: "int \<Rightarrow> int \<Rightarrow> int \<Rightarrow> error + date" where
  "date_new y m d =
     (if \<not> (c_int_ok y \<and> c_int_ok m \<and> c_int_ok d)
      then Inl (OverflowError ''Python int too large to convert to C int'')
      else if \<not> (1 \<le> y \<and> y \<le> 9999) then Inl (ValueError ''year is out of range'')
      else if \<not> (1 \<le> m \<and> m \<le> 12) then Inl (ValueError ''month must be in 1..12'')
      else if \<not> (1 \<le> d \<and> d \<le> days_in_month y m)
      then Inl (ValueError ''day is out of range for month'')
      else Inr \<lparr>year = y, month = m, day = d\<rparr>)"

text \<open>\<^verbatim>\<open>xs[:stop]\<close>: a negative stop counts from the end.\<close>

definition slice_to :: "'a list \<Rightarrow> int \<Rightarrow> 'a list" where
  "slice_to xs stop =
     (if 0 \<le> stop then take (nat stop) xs else take (nat (int (length xs) + stop)) xs)"

text \<open>
  \<^verbatim>\<open>xs.sort(key=key, reverse=True)\<close>: CPython reverses the list, sorts it stably and
  reverses it again, so that equal keys keep their order.
\<close>

definition sort_reverse :: "('a \<Rightarrow> 'k::linorder) \<Rightarrow> 'a list \<Rightarrow> 'a list" where
  "sort_reverse key xs = rev (sort_key key (rev xs))"

text \<open>
  \<^verbatim>\<open>random.sample(population, k)\<close>. The random source is explicit: the list of the raw
  draws, of which the \<open>i\<close>-th is reduced to an index below the number of elements still in
  the pool (\<^verbatim>\<open>randbelow(n - i)\<close>); a missing draw counts as 0. Each pick is replaced in the
  pool by the pool's last element, as the library does for a small population; for a large
  one the library picks the distinct positions in another way, with the same possible
  results.
\<close>

fun sample_loop :: "nat list \<Rightarrow> 'a list \<Rightarrow> nat \<Rightarrow> 'a list" where
  "sample_loop draws pool 0 = []"
| "sample_loop draws pool (Suc k) =
     (if pool = [] then []
      else (let j = (case draws of [] \<Rightarrow> 0 | r # _ \<Rightarrow> r) mod length pool
            in pool ! j # sample_loop (tl draws) (butlast (pool[j := last pool])) k))"

definition random_sample :: "nat list \<Rightarrow> 'a list \<Rightarrow> int \<Rightarrow> error + 'a list" where
  "random_sample draws population k =
     (if \<not> (0 \<le> k \<and> k \<le> int (length population))
      then Inl (ValueError ''Sample larger than population or is negative'')
      else Inr (sample_loop draws population (nat k)))"

text \<open>A list comprehension whose body may raise: the first exception ends it.\<close>

fun map_result :: "('a \<Rightarrow> error + 'b) \<Rightarrow> 'a list \<Rightarrow> error + 'b list" where
  "map_result f [] = Inr []"
| "map_result f (x # xs) =
     (case f x of
        Inl e \<Rightarrow> Inl e
      | Inr y \<Rightarrow> (case map_result f xs of Inl e \<Rightarrow> Inl e | Inr ys \<Rightarrow> Inr (y # ys)))"

subsection \<open>Track data\<close>

text \<open>
  A track of the Spotify API is a dictionary; the keys the code reads are the fields below,
  \<open>None\<close> for a missing key: \<^verbatim>\<open>id\<close>, \<^verbatim>\<open>name\<close>, \<^verbatim>\<open>artists\<close> (each with \<^verbatim>\<open>name\<close>), \<^verbatim>\<open>album\<close>
  (with \<^verbatim>\<open>release_date\<close> and \<^verbatim>\<open>name\<close>) and \<^verbatim>\<open>popularity\<close>.
\<close>

record artist_data =
  artist_title :: "string option"

record album_data =
  album_release_date :: "string option"
  album_title :: "string option"

record track_data =
  track_id :: "string option"
  track_title :: "string option"
  artists :: "artist_data list option"
  album :: "album_data option"
  track_popularity :: "int option"

text \<open>
  \<^verbatim>\<open>models.Track\<close>; its fields \<^verbatim>\<open>name\<close> and \<^verbatim>\<open>artist_name\<close> are \<open>track_name\<close> and
  \<open>track_artist_name\<close> here.
\<close>

record Track =
  spotify_id :: string
  track_name :: string
  track_artist_name :: string
  album_name :: string
  release_date :: "date option"
  popularity :: int
  selection_strategy :: string
  selection_reason :: string

text \<open>\<^verbatim>\<open>track.get("album", {}).get("release_date", default)\<close>\<close>

definition release_date_or :: "string \<Rightarrow> track_data \<Rightarrow> string" where
  "release_date_or dflt track =
     (case album track of
        None \<Rightarrow> dflt
      | Some a \<Rightarrow> (case album_release_date a of None \<Rightarrow> dflt | Some s \<Rightarrow> s))"

text \<open>\<^verbatim>\<open>t.get("popularity", 0)\<close>\<close>

definition popularity_or_0 :: "track_data \<Rightarrow> int" where
  "popularity_or_0 t = (case track_popularity t of None \<Rightarrow> 0 | Some p \<Rightarrow> p)"

text \<open>
  The \<^verbatim>\<open>try\<close> block of \<^verbatim>\<open>_track_to_model\<close>: \<^verbatim>\<open>ValueError\<close> and \<^verbatim>\<open>IndexError\<close> are caught and
  leave no release date, any other exception goes on.
\<close>

definition caught :: "error + date \<Rightarrow> error + date option" where
  "caught r =
     (case r of
        Inr d \<Rightarrow> Inr (Some d)
      | Inl (ValueError _) \<Rightarrow> Inr None
      | Inl (IndexError _) \<Rightarrow> Inr None
      | Inl e \<Rightarrow> Inl e)"

definition parse_release_date :: "string \<Rightarrow> error + date option" where
  "parse_release_date release_date_str =
     (if release_date_str = [] then Inr None
      else (case split_on (CHR ''-'') release_date_str of
              p0 # p1 # p2 # _ \<Rightarrow>
                (case (py_int p0, py_int p1, py_int p2) of
                   (Some y, Some m, Some d) \<Rightarrow> caught (date_new y m d)
                 | _ \<Rightarrow> Inr None)
            | [p0, p1] \<Rightarrow>
                (case (py_int p0, py_int p1) of
                   (Some y, Some m) \<Rightarrow> caught (date_new y m 1)
                 | _ \<Rightarrow> Inr None)
            | [p0] \<Rightarrow>
                (if isdigit p0
                 then (case py_int p0 of Some y \<Rightarrow> caught (date_new y 1 1) | None \<Rightarrow> Inr None)
                 else Inr None)
            | [] \<Rightarrow> Inr None))"

text \<open>
  \<^verbatim>\<open>BaseStrategy._track_to_model\<close>; \<open>strategy_name\<close> is \<^verbatim>\<open>self.name\<close>. The arguments of
  \<^verbatim>\<open>Track(...)\<close> are evaluated in the order written, then the model validates the
  popularity (\<^verbatim>\<open>ge=0, le=100\<close>).
\<close>

definition track_to_model :: "string \<Rightarrow> track_data \<Rightarrow> string \<Rightarrow> error + Track" where
  "track_to_model strategy_name track reason_text =
     (case parse_release_date (release_date_or [] track) of
        Inl e \<Rightarrow> Inl e
      | Inr rd \<Rightarrow>
     (case track_id track of
        None \<Rightarrow> Inl (KeyError ''id'')
      | Some tid \<Rightarrow>
     (case track_title track of
        None \<Rightarrow> Inl (KeyError ''name'')
      | Some tname \<Rightarrow>
     (case artists track of
        Some [] \<Rightarrow> Inl (IndexError ''list index out of range'')
      | first_artist \<Rightarrow>
     (let aname = (case first_artist of
                     Some (a # _) \<Rightarrow> (case artist_title a of None \<Rightarrow> ''Unknown'' | Some n \<Rightarrow> n)
                   | _ \<Rightarrow> ''Unknown'');
          alname = (case album track of
                      None \<Rightarrow> ''Unknown''
                    | Some a \<Rightarrow> (case album_title a of None \<Rightarrow> ''Unknown'' | Some n \<Rightarrow> n));
          pop = popularity_or_0 track
      in if 0 \<le> pop \<and> pop \<le> 100
         then Inr \<lparr>spotify_id = tid, track_name = tname, track_artist_name = aname,
                   album_name = alname, release_date = rd, popularity = pop,
                   selection_strategy = strategy_name, selection_reason = reason_text\<rparr>
         else Inl (ValidationError ''popularity''))))))"

subsection \<open>Strategies\<close>

text \<open>
  The arguments \<^verbatim>\<open>artist_id\<close> and \<^verbatim>\<open>artist_name\<close> of \<^verbatim>\<open>select_tracks\<close> reach only the logger
  and are left out, as are the log records of \<^verbatim>\<open>select_tracks\<close>.
\<close>

text \<open>
  The parameters \<^verbatim>\<open>count\<close> and \<^verbatim>\<open>performance_date\<close> are \<open>cnt\<close> and \<open>perf_date\<close> below, and the
  second parameter of the strategies that draw at random is the random source.
\<close>

text \<open>\<^verbatim>\<open>TopNStrategy.select_tracks\<close>\<close>

definition TopN_select :: "track_data list \<Rightarrow> date option \<Rightarrow> int \<Rightarrow> error + Track list" where
  "TopN_select tracks perf_date cnt =
     (let selected = slice_to tracks cnt
      in map_result
           (\<lambda>(i, t). track_to_model ''top_n'' t (''Top '' @ str_nat (i + 1) @ '' by popularity''))
           (enumerate 0 selected))"

text \<open>\<^verbatim>\<open>RandomNStrategy.select_tracks\<close>\<close>

definition RandomN_select ::
  "nat list \<Rightarrow> track_data list \<Rightarrow> date option \<Rightarrow> int \<Rightarrow> error + Track list" where
  "RandomN_select draws tracks perf_date cnt =
     (case (if int (length tracks) \<le> cnt then Inr tracks
            else random_sample draws tracks cnt) of
        Inl e \<Rightarrow> Inl e
      | Inr selected \<Rightarrow>
          map_result (\<lambda>t. track_to_model ''random_n'' t ''Random selection from catalog'') selected)"

text \<open>
  \<^verbatim>\<open>EraWeightedStrategy._calculate_era_score\<close>. The subtraction \<^verbatim>\<open>100.0 - (years_diff * 10)\<close>
  converts the integer to a float and raises \<^verbatim>\<open>OverflowError\<close> from \<open>2^1024 - 2^970\<close> on,
  the first integer that rounds beyond the largest float. Below that, the result is
  exact when it is not negative, and \<^verbatim>\<open>max\<close> returns 0.0 otherwise.
\<close>

definition float_overflow :: int where
  "float_overflow = 2 ^ 1024 - 2 ^ 970"

definition calculate_era_score :: "string \<Rightarrow> date \<Rightarrow> error + real" where
  "calculate_era_score release_date_str perf_date =
     (if release_date_str = [] then Inr 0
      else (case split_on (CHR ''-'') release_date_str of
              [] \<Rightarrow> Inr 0
            | p0 # _ \<Rightarrow>
                (case py_int p0 of
                   None \<Rightarrow> Inr 0
                 | Some release_year \<Rightarrow>
                     (let perf_year = year perf_date;
                          years_diff = \<bar>release_year - perf_year\<bar>
                      in if float_overflow \<le> years_diff * 10
                         then Inl (OverflowError ''int too large to convert to float'')
                         else Inr (max 0 (100 - of_int (years_diff * 10)))))))"

text \<open>\<^verbatim>\<open>EraWeightedStrategy.select_tracks\<close>\<close>

definition EraWeighted_select :: "track_data list \<Rightarrow> date option \<Rightarrow> int \<Rightarrow> error + Track list" where
  "EraWeighted_select tracks perf_date cnt =
     (case perf_date of
        None \<Rightarrow> TopN_select tracks perf_date cnt
      | Some pd \<Rightarrow>
          (case map_result
                  (\<lambda>track. case calculate_era_score (release_date_or [] track) pd of
                              Inl e \<Rightarrow> Inl e
                            | Inr score \<Rightarrow> Inr (score, track))
                  tracks of
             Inl e \<Rightarrow> Inl e
           | Inr scored_tracks \<Rightarrow>
               (let selected = map snd (slice_to (sort_reverse fst scored_tracks) cnt)
                in map_result
                     (\<lambda>t. track_to_model ''era_weighted'' t
                            (''Era-weighted: released '' @ release_date_or ''unknown'' t))
                     selected)))"

text \<open>\<^verbatim>\<open>DeepCutsStrategy.name\<close> and \<^verbatim>\<open>DeepCutsStrategy.select_tracks\<close>\<close>

definition DeepCuts_name :: "int \<Rightarrow> string" where
  "DeepCuts_name max_popularity = ''deep_cuts(max_pop='' @ str_int max_popularity @ '')''"

text \<open>
  The body of \<^verbatim>\<open>select_tracks\<close> in three steps: the list comprehension that keeps the tracks
  up to the ceiling, the pool after the fallback for an empty list, and the selection.
\<close>

definition deep_cuts_candidates :: "int \<Rightarrow> track_data list \<Rightarrow> track_data list" where
  "deep_cuts_candidates max_popularity tracks =
     filter (\<lambda>t. popularity_or_0 t \<le> max_popularity) tracks"

definition deep_cuts_pool :: "int \<Rightarrow> track_data list \<Rightarrow> int \<Rightarrow> track_data list" where
  "deep_cuts_pool max_popularity tracks cnt =
     (let deep_cuts = deep_cuts_candidates max_popularity tracks
      in if deep_cuts = []
         then (let sorted_tracks = sort_key popularity_or_0 tracks
               in slice_to sorted_tracks (cnt * 2))
         else deep_cuts)"

definition deep_cut_reason :: "track_data \<Rightarrow> string" where
  "deep_cut_reason t =
     ''Deep cut: popularity ''
       @ (case track_popularity t of None \<Rightarrow> ''unknown'' | Some p \<Rightarrow> str_int p)"

definition DeepCuts_select ::
  "int \<Rightarrow> nat list \<Rightarrow> track_data list \<Rightarrow> date option \<Rightarrow> int \<Rightarrow> error + Track list" where
  "DeepCuts_select max_popularity draws tracks perf_date cnt =
     (let deep_cuts = deep_cuts_pool max_popularity tracks cnt
      in case (if int (length deep_cuts) \<le> cnt then Inr deep_cuts
               else random_sample draws deep_cuts cnt) of
           Inl e \<Rightarrow> Inl e
         | Inr selected \<Rightarrow>
             map_result
               (\<lambda>t. track_to_model (DeepCuts_name max_popularity) t (deep_cut_reason t))
               selected)"

text \<open>The four implementations of the strategy protocol, and the dispatch of the call.\<close>

datatype Strategy =
    TopNStrategy
  | RandomNStrategy
  | EraWeightedStrategy
  | DeepCutsStrategy int

fun select_tracks ::
  "Strategy \<Rightarrow> nat list \<Rightarrow> track_data list \<Rightarrow> date option \<Rightarrow> int \<Rightarrow> error + Track list" where
  "select_tracks TopNStrategy draws tracks pd cnt = TopN_select tracks pd cnt"
| "select_tracks RandomNStrategy draws tracks pd cnt = RandomN_select draws tracks pd cnt"
| "select_tracks EraWeightedStrategy draws tracks pd cnt = EraWeighted_select tracks pd cnt"
| "select_tracks (DeepCutsStrategy m) draws tracks pd cnt = DeepCuts_select m draws tracks pd cnt"

text \<open>\<^verbatim>\<open>DeepCutsStrategy.__init__\<close>; the argument is \<open>None\<close> when the caller leaves it out.\<close>

definition DeepCutsStrategy_init :: "int option \<Rightarrow> Strategy" where
  "DeepCutsStrategy_init max_popularity =
     DeepCutsStrategy (case max_popularity of None \<Rightarrow> 60 | Some m \<Rightarrow> m)"

subsection \<open>Strategy resolver\<close>

record log_record =
  log_level :: string
  log_event :: string
  log_fields :: "(string \<times> string) list"

datatype strategy_class = TopNClass | RandomNClass | EraWeightedClass | DeepCutsClass

definition strategies :: "(string \<times> strategy_class) list" where
  "strategies =
     [(''top'', TopNClass),
      (''top_n'', TopNClass),
      (''random'', RandomNClass),
      (''random_n'', RandomNClass),
      (''era'', EraWeightedClass),
      (''era_weighted'', EraWeightedClass),
      (''deep'', DeepCutsClass),
      (''deep_cuts'', DeepCutsClass)]"

text \<open>
  \<^verbatim>\<open>get_strategy\<close>; the keyword argument \<^verbatim>\<open>max_popularity\<close> is \<open>None\<close> when not given. The
  result is the strategy together with what was logged.
\<close>

definition get_strategy :: "string \<Rightarrow> int option \<Rightarrow> Strategy \<times> log_record list" where
  "get_strategy name max_popularity_kw =
     (let strategy_name =
            (if CHR ''-'' \<in> set name
             then (case split_on (CHR ''-'') name of p # _ \<Rightarrow> lower p | [] \<Rightarrow> lower [])
             else lower name)
      in case map_of strategies strategy_name of
           None \<Rightarrow>
             (TopNStrategy,
              [\<lparr>log_level = ''warning'', log_event = ''unknown_strategy'',
                log_fields = [(''name'', name), (''fallback'', ''top_n'')]\<rparr>])
         | Some strategy_class \<Rightarrow>
             (if strategy_class = DeepCutsClass
              then (DeepCutsStrategy_init
                      (Some (case max_popularity_kw of None \<Rightarrow> 60 | Some m \<Rightarrow> m)), [])
              else (case strategy_class of
                      TopNClass \<Rightarrow> (TopNStrategy, [])
                    | RandomNClass \<Rightarrow> (RandomNStrategy, [])
                    | EraWeightedClass \<Rightarrow> (EraWeightedStrategy, [])
                    | DeepCutsClass \<Rightarrow> (DeepCutsStrategy_init None, []))))"

section \<open>Notions used to state the properties\<close>

text \<open>
  What a filter does with one record, read off the code by running the filter on that
  record alone: whether it includes the record, and the excluded item it produces.
\<close>

definition Filter_accepts :: "py_builtins \<Rightarrow> Filter \<Rightarrow> Performance \<Rightarrow> bool" where
  "Filter_accepts B f perf =
     (case Filter_apply B f [perf] of Inr r \<Rightarrow> included r = [perf] | Inl e \<Rightarrow> False)"

definition Filter_rejection :: "py_builtins \<Rightarrow> Filter \<Rightarrow> Performance \<Rightarrow> ExcludedItem list" where
  "Filter_rejection B f perf =
     (case Filter_apply B f [perf] of Inr r \<Rightarrow> excluded r | Inl e \<Rightarrow> [])"

text \<open>
  Well-formed metadata values: \<^verbatim>\<open>None\<close>, a boolean, an integer, a string, or a list of
  these. A field filter reads one key of the metadata; the other filters read none.
\<close>

definition hashable_value :: "pyval \<Rightarrow> bool" where
  "hashable_value v = (case v of VList vs \<Rightarrow> list_all hashable vs | _ \<Rightarrow> hashable v)"

fun Filter_input_ok :: "Filter \<Rightarrow> Performance \<Rightarrow> bool" where
  "Filter_input_ok (FieldF f) perf = hashable_value (dict_get (metadata perf) (field f))"
| "Filter_input_ok (ConfidenceF f) perf = True"
| "Filter_input_ok (DateRangeF f) perf = True"




text \<open>
  A well-formed track of the catalog: it has an id and a name, its list of artists is not
  empty, its popularity lies in 0..100 when present, and the numbers in its release date fit
  a C integer.
\<close>

definition well_formed_track :: "track_data \<Rightarrow> bool" where
  "well_formed_track t =
     (track_id t \<noteq> None \<and> track_title t \<noteq> None \<and> artists t \<noteq> Some [] \<and>
      0 \<le> popularity_or_0 t \<and> popularity_or_0 t \<le> 100 \<and>
      list_all (\<lambda>p. case py_int p of None \<Rightarrow> True | Some v \<Rightarrow> c_int_ok v)
        (split_on (CHR ''-'') (release_date_or [] t)))"

section \<open>Sample data of the specification's worked cases\<close>

definition sample_builtins :: py_builtins where
  "sample_builtins = \<lparr>py_str = (\<lambda>v. case v of VStr s \<Rightarrow> s | _ \<Rightarrow> ''?''), py_repr_float = (\<lambda>x. ''0.5'')\<rparr>"

definition sample_performance ::
  "string \<Rightarrow> real \<Rightarrow> date option \<Rightarrow> (date \<times> date) option \<Rightarrow> (string \<rightharpoonup> pyval) \<Rightarrow> Performance" where
  "sample_performance artist score d r md =
     \<lparr>artist_name = artist, venue_name = ''CBGB'', city = ''New York'', country = Some ''US'',
      performance_date = d, performance_date_range = r, source_name = ''setlist.fm'',
      source_reference = ''ref'', confidence_score = score, metadata = md\<rparr>"

definition sample_date :: "int \<Rightarrow> int \<Rightarrow> int \<Rightarrow> date" where
  "sample_date y m d = \<lparr>year = y, month = m, day = d\<rparr>"

definition sample_track :: "string \<Rightarrow> string option \<Rightarrow> int option \<Rightarrow> track_data" where
  "sample_track tid released pop =
     \<lparr>track_id = Some tid, track_title = Some tid,
      artists = Some [\<lparr>artist_title = Some ''Ramones''\<rparr>],
      album = Some \<lparr>album_release_date = released, album_title = Some ''LP''\<rparr>,
      track_popularity = pop\<rparr>"

definition sample_genre_filter :: FieldFilter where
  "sample_genre_filter = FieldFilter_init ''genre'' [VStr ''punk'', VStr ''rock''] True False"

definition sample_genre :: "string \<Rightarrow> pyval option \<Rightarrow> Performance" where
  "sample_genre artist g = sample_performance artist 1 None None (Map.empty(''genre'' := g))"

definition sample_window :: DateRangeFilter where
  "sample_window = \<lparr>start_date = sample_date 1978 9 1, end_date = sample_date 1978 12 31\<rparr>"

section \<open>Properties\<close>

lemma ConfidenceFilter_loop_eq:
  "ConfidenceFilter_loop B f ps inc exc =
     \<lparr>included = inc @ filter (\<lambda>p. min_confidence f \<le> confidence_score p) ps,
      excluded = exc @ map (ConfidenceFilter_item B f)
                         (filter (\<lambda>p. \<not> min_confidence f \<le> confidence_score p) ps)\<rparr>"
  by (induction ps arbitrary: inc exc) simp_all

subsection \<open>Number formatting\<close>

lemma str_nat_small: "n < 10 \<Longrightarrow> str_nat n = [digit_char n]"
  by (simp add: str_nat.simps)

lemma str_nat_big: "10 \<le> n \<Longrightarrow> str_nat n = str_nat (n div 10) @ [digit_char (n mod 10)]"
  by (subst str_nat.simps) simp

lemma two_digits: "m < 100 \<Longrightarrow> zero_pad 2 (str_nat m) = [digit_char (m div 10), digit_char (m mod 10)]"
proof (cases "m < 10")
  case True
  then show ?thesis by (simp add: str_nat_small zero_pad_def digit_char_def)
next
  case False
  assume "m < 100"
  with False have "m div 10 < 10" "10 \<le> m" by auto
  then show ?thesis by (simp add: str_nat_small str_nat_big zero_pad_def)
qed

lemma round_half_even_close: "\<bar>of_int (round_half_even x) - x\<bar> \<le> 1 / 2"
  unfolding round_half_even_def Let_def by (auto; linarith)

lemma round_half_even_nonneg: "0 \<le> x \<Longrightarrow> 0 \<le> round_half_even x"
  unfolding round_half_even_def Let_def by (auto; linarith)

lemma format_2f_nonneg:
  assumes "0 \<le> x"
  shows "\<exists>h::nat. \<bar>real h - x * 100\<bar> \<le> 1 / 2 \<and>
           format_2f x = str_nat (h div 100) @ ''.'' @ [digit_char (h mod 100 div 10), digit_char (h mod 10)]"
proof -
  let ?h = "nat (round_half_even (\<bar>x\<bar> * 100))"
  have nn: "0 \<le> round_half_even (\<bar>x\<bar> * 100)" by (rule round_half_even_nonneg) simp
  have ax: "\<bar>x\<bar> = x" using assms by simp
  have "real ?h = of_int (round_half_even (\<bar>x\<bar> * 100))" using nn by simp
  then have close: "\<bar>real ?h - x * 100\<bar> \<le> 1 / 2"
    using round_half_even_close [of "\<bar>x\<bar> * 100"] by (simp only: ax)
  have "format_2f x = str_nat (?h div 100) @ ''.'' @ zero_pad 2 (str_nat (?h mod 100))"
    using assms by (simp add: format_2f_def Let_def)
  also have "zero_pad 2 (str_nat (?h mod 100)) = [digit_char (?h mod 100 div 10), digit_char (?h mod 100 mod 10)]"
    by (rule two_digits) simp
  also have "?h mod 100 mod 10 = ?h mod 10" by (simp add: mod_mod_cancel)
  finally show ?thesis using close by blast
qed

subsection \<open>Confidence filter\<close>

lemma ConfidenceFilter_apply_eq:
  "ConfidenceFilter_apply B f ps =
     \<lparr>included = filter (\<lambda>p. min_confidence f \<le> confidence_score p) ps,
      excluded = map (ConfidenceFilter_item B f)
                         (filter (\<lambda>p. \<not> min_confidence f \<le> confidence_score p) ps)\<rparr>"
  by (simp add: ConfidenceFilter_apply_def ConfidenceFilter_loop_eq)

lemma format_2f_049: "format_2f (49 / 100) = ''0.49''"
  by (simp add: format_2f_def round_half_even_def str_nat_small str_nat_big zero_pad_def digit_char_def)

text \<open>
  Claim C8. Constructing a confidence filter with a threshold outside \<open>[0, 1]\<close> raises the
  \<^verbatim>\<open>ValueError\<close> of the constructor (the configuration error of the specification) and
  yields no filter, so nothing is clamped; a threshold inside \<open>[0, 1]\<close> yields the filter with
  that threshold. The filter includes exactly the records whose score is at least the
  threshold, in input order, and turns every other record into an excluded item whose reason
  is the score printed with two decimals followed by the threshold. The two decimals are
  those of the hundredth nearest to the score.
\<close>

theorem C8_confidence_filter:
  "(\<not> (0 \<le> mc \<and> mc \<le> 1) \<longrightarrow>
      ConfidenceFilter_init mc = Inl (ValueError ''min_confidence must be between 0.0 and 1.0'')) \<and>
   (0 \<le> mc \<and> mc \<le> 1 \<longrightarrow>
      ConfidenceFilter_init mc = Inr \<lparr>min_confidence = mc\<rparr> \<and>
      included (ConfidenceFilter_apply B \<lparr>min_confidence = mc\<rparr> ps) =
        filter (\<lambda>p. confidence_score p \<ge> mc) ps \<and>
      excluded (ConfidenceFilter_apply B \<lparr>min_confidence = mc\<rparr> ps) =
        map (\<lambda>p. \<lparr>item_type = ''performance'',
                   item_name = artist_name p @ '' @ '' @ venue_name p,
                   reason = ''Confidence '' @ format_2f (confidence_score p)
                              @ '' below threshold '' @ py_repr_float B mc,
                   filter_name = Some (''confidence(>='' @ py_repr_float B mc @ '')'')\<rparr>)
            (filter (\<lambda>p. confidence_score p < mc) ps)) \<and>
   (0 \<le> x \<longrightarrow>
      (\<exists>h::nat. \<bar>real h - x * 100\<bar> \<le> 1 / 2 \<and>
         format_2f x =
           str_nat (h div 100) @ ''.'' @ [digit_char (h mod 100 div 10), digit_char (h mod 10)]))"
proof (intro conjI impI)
  assume "\<not> (0 \<le> mc \<and> mc \<le> 1)"
  then show "ConfidenceFilter_init mc = Inl (ValueError ''min_confidence must be between 0.0 and 1.0'')"
    by (simp add: ConfidenceFilter_init_def)
next
  assume "0 \<le> mc \<and> mc \<le> 1"
  then show "ConfidenceFilter_init mc = Inr \<lparr>min_confidence = mc\<rparr>"
    by (simp add: ConfidenceFilter_init_def)
next
  show "included (ConfidenceFilter_apply B \<lparr>min_confidence = mc\<rparr> ps) =
        filter (\<lambda>p. confidence_score p \<ge> mc) ps"
    by (simp add: ConfidenceFilter_apply_eq)
next
  show "excluded (ConfidenceFilter_apply B \<lparr>min_confidence = mc\<rparr> ps) =
        map (\<lambda>p. \<lparr>item_type = ''performance'',
                   item_name = artist_name p @ '' @ '' @ venue_name p,
                   reason = ''Confidence '' @ format_2f (confidence_score p)
                              @ '' below threshold '' @ py_repr_float B mc,
                   filter_name = Some (''confidence(>='' @ py_repr_float B mc @ '')'')\<rparr>)
            (filter (\<lambda>p. confidence_score p < mc) ps)"
    by (simp add: ConfidenceFilter_apply_eq ConfidenceFilter_item_def [abs_def]
        ConfidenceFilter_name_def perf_label_def not_le)
next
  assume "0 \<le> x"
  then show "\<exists>h::nat. \<bar>real h - x * 100\<bar> \<le> 1 / 2 \<and>
         format_2f x =
           str_nat (h div 100) @ ''.'' @ [digit_char (h mod 100 div 10), digit_char (h mod 10)]"
    by (rule format_2f_nonneg)
qed

theorem C8_confidence_filter_witness:
  "ConfidenceFilter_init (3 / 2) = Inl (ValueError ''min_confidence must be between 0.0 and 1.0'') \<and>
   ConfidenceFilter_init (1 / 2) = Inr \<lparr>min_confidence = 1 / 2\<rparr> \<and>
   included (ConfidenceFilter_apply sample_builtins \<lparr>min_confidence = 1 / 2\<rparr>
      [sample_performance ''A'' (49 / 100) None None Map.empty,
       sample_performance ''B'' (1 / 2) None None Map.empty]) =
     [sample_performance ''B'' (1 / 2) None None Map.empty] \<and>
   map reason (excluded (ConfidenceFilter_apply sample_builtins \<lparr>min_confidence = 1 / 2\<rparr>
      [sample_performance ''A'' (49 / 100) None None Map.empty,
       sample_performance ''B'' (1 / 2) None None Map.empty])) =
     [''Confidence 0.49 below threshold 0.5''] \<and>
   (\<exists>h::nat. \<bar>real h - 49\<bar> \<le> 1 / 2 \<and>
       format_2f (49 / 100) =
         str_nat (h div 100) @ ''.'' @ [digit_char (h mod 100 div 10), digit_char (h mod 10)])"
  using C8_confidence_filter [of "3 / 2" sample_builtins "[]" 0]
    C8_confidence_filter [of "1 / 2" sample_builtins
      "[sample_performance ''A'' (49 / 100) None None Map.empty,
        sample_performance ''B'' (1 / 2) None None Map.empty]" "49 / 100"]
  by (simp add: sample_performance_def sample_builtins_def format_2f_049)

subsection \<open>Date-range filter\<close>

lemma DateRangeFilter_loop_eq:
  "DateRangeFilter_loop f ps inc exc =
     \<lparr>included = inc @ filter (\<lambda>p. overlaps_range p (start_date f) (end_date f)) ps,
      excluded = exc @ map (\<lambda>p. if has_valid_date p then DateRangeFilter_outside_item f p
                                 else DateRangeFilter_missing_item f p)
                         (filter (\<lambda>p. \<not> overlaps_range p (start_date f) (end_date f)) ps)\<rparr>"
proof (induction ps arbitrary: inc exc)
  case Nil
  show ?case by simp
next
  case (Cons p ps)
  have "\<not> has_valid_date p \<Longrightarrow> \<not> overlaps_range p (start_date f) (end_date f)"
    by (auto simp: has_valid_date_def overlaps_range_def split: option.splits)
  then show ?case using Cons by auto
qed

lemma DateRangeFilter_apply_eq:
  "DateRangeFilter_apply f ps =
     \<lparr>included = filter (\<lambda>p. overlaps_range p (start_date f) (end_date f)) ps,
      excluded = map (\<lambda>p. if has_valid_date p then DateRangeFilter_outside_item f p
                           else DateRangeFilter_missing_item f p)
                   (filter (\<lambda>p. \<not> overlaps_range p (start_date f) (end_date f)) ps)\<rparr>"
  by (simp add: DateRangeFilter_apply_def DateRangeFilter_loop_eq)

text \<open>
  Claim C2. A date-range filter with the inclusive window from \<open>start_date\<close> to \<open>end_date\<close>
  decides each record on its own. A record with neither an exact date nor a date range is
  excluded, with the reason "No temporal evidence (missing date)". A record with an exact
  date \<open>d\<close> is included iff \<open>start_date \<le> d \<le> end_date\<close>, whether or not it also has a
  range. A record with only a range \<open>(rs, re)\<close> is included iff \<open>rs \<le> end_date\<close> and
  \<open>start_date \<le> re\<close>, the overlap of two closed intervals.
\<close>

theorem C2_date_range_filter:
  "included (DateRangeFilter_apply f ps) =
     filter (\<lambda>p. included (DateRangeFilter_apply f [p]) = [p]) ps \<and>
   (performance_date p = None \<and> performance_date_range p = None \<longrightarrow>
      DateRangeFilter_apply f [p] =
        \<lparr>included = [],
         excluded = [\<lparr>item_type = ''performance'', item_name = artist_name p @ '' @ '' @ venue_name p,
                      reason = ''No temporal evidence (missing date)'',
                      filter_name = Some (DateRangeFilter_name f)\<rparr>]\<rparr>) \<and>
   (performance_date p = Some d \<longrightarrow>
      (included (DateRangeFilter_apply f [p]) = [p]) =
        (date_le (start_date f) d \<and> date_le d (end_date f))) \<and>
   (performance_date p = None \<and> performance_date_range p = Some (rs, re) \<longrightarrow>
      (included (DateRangeFilter_apply f [p]) = [p]) =
        (date_le rs (end_date f) \<and> date_le (start_date f) re))"
proof (intro conjI impI)
  have "\<And>q. (included (DateRangeFilter_apply f [q]) = [q]) = overlaps_range q (start_date f) (end_date f)"
    by (simp add: DateRangeFilter_apply_eq)
  then show "included (DateRangeFilter_apply f ps) =
     filter (\<lambda>p. included (DateRangeFilter_apply f [p]) = [p]) ps"
    by (simp add: DateRangeFilter_apply_eq)
next
  assume "performance_date p = None \<and> performance_date_range p = None"
  then show "DateRangeFilter_apply f [p] =
        \<lparr>included = [],
         excluded = [\<lparr>item_type = ''performance'', item_name = artist_name p @ '' @ '' @ venue_name p,
                      reason = ''No temporal evidence (missing date)'',
                      filter_name = Some (DateRangeFilter_name f)\<rparr>]\<rparr>"
    by (simp add: DateRangeFilter_apply_eq overlaps_range_def has_valid_date_def
        DateRangeFilter_missing_item_def perf_label_def)
next
  assume "performance_date p = Some d"
  then show "(included (DateRangeFilter_apply f [p]) = [p]) =
        (date_le (start_date f) d \<and> date_le d (end_date f))"
    by (simp add: DateRangeFilter_apply_eq overlaps_range_def)
next
  assume "performance_date p = None \<and> performance_date_range p = Some (rs, re)"
  then show "(included (DateRangeFilter_apply f [p]) = [p]) =
        (date_le rs (end_date f) \<and> date_le (start_date f) re)"
    by (simp add: DateRangeFilter_apply_eq overlaps_range_def)
qed


theorem C2_date_range_filter_witness:
  "(let w = \<lparr>start_date = sample_date 1978 9 1, end_date = sample_date 1978 12 31\<rparr>;
        undated = sample_performance ''A'' 1 None None Map.empty;
        exact = sample_performance ''B'' 1 (Some (sample_date 1978 10 5)) None Map.empty;
        overlap = sample_performance ''C'' 1 None
                    (Some (sample_date 1978 6 1, sample_date 1978 10 1)) Map.empty;
        before = sample_performance ''D'' 1 None
                    (Some (sample_date 1978 6 1, sample_date 1978 8 1)) Map.empty;
        both = sample_performance ''E'' 1 (Some (sample_date 1978 5 1))
                    (Some (sample_date 1978 6 1, sample_date 1978 10 1)) Map.empty
    in included (DateRangeFilter_apply w [undated, exact, overlap, before, both]) = [exact, overlap] \<and>
       map reason (excluded (DateRangeFilter_apply w [undated])) =
         [''No temporal evidence (missing date)''] \<and>
       included (DateRangeFilter_apply w [exact]) = [exact] \<and>
       included (DateRangeFilter_apply w [overlap]) = [overlap] \<and>
       included (DateRangeFilter_apply w [before]) \<noteq> [before] \<and>
       included (DateRangeFilter_apply w [both]) \<noteq> [both])"
  using
    C2_date_range_filter [of "\<lparr>start_date = sample_date 1978 9 1, end_date = sample_date 1978 12 31\<rparr>"
      "[sample_performance ''A'' 1 None None Map.empty,
        sample_performance ''B'' 1 (Some (sample_date 1978 10 5)) None Map.empty,
        sample_performance ''C'' 1 None (Some (sample_date 1978 6 1, sample_date 1978 10 1)) Map.empty,
        sample_performance ''D'' 1 None (Some (sample_date 1978 6 1, sample_date 1978 8 1)) Map.empty,
        sample_performance ''E'' 1 (Some (sample_date 1978 5 1))
          (Some (sample_date 1978 6 1, sample_date 1978 10 1)) Map.empty]"
      "sample_performance ''A'' 1 None None Map.empty"]
    C2_date_range_filter [of "\<lparr>start_date = sample_date 1978 9 1, end_date = sample_date 1978 12 31\<rparr>"
      "[]" "sample_performance ''B'' 1 (Some (sample_date 1978 10 5)) None Map.empty"
      "sample_date 1978 10 5"]
    C2_date_range_filter [of "\<lparr>start_date = sample_date 1978 9 1, end_date = sample_date 1978 12 31\<rparr>"
      "[]" "sample_performance ''E'' 1 (Some (sample_date 1978 5 1))
          (Some (sample_date 1978 6 1, sample_date 1978 10 1)) Map.empty"
      "sample_date 1978 5 1"]
    C2_date_range_filter [of "\<lparr>start_date = sample_date 1978 9 1, end_date = sample_date 1978 12 31\<rparr>"
      "[]" "sample_performance ''C'' 1 None (Some (sample_date 1978 6 1, sample_date 1978 10 1)) Map.empty"
      _ "sample_date 1978 6 1" "sample_date 1978 10 1"]
    C2_date_range_filter [of "\<lparr>start_date = sample_date 1978 9 1, end_date = sample_date 1978 12 31\<rparr>"
      "[]" "sample_performance ''D'' 1 None (Some (sample_date 1978 6 1, sample_date 1978 8 1)) Map.empty"
      _ "sample_date 1978 6 1" "sample_date 1978 8 1"]
  by (simp add: Let_def sample_performance_def sample_date_def date_le_def)

subsection \<open>Field filter\<close>

lemma FieldFilter_loop_Inr:
  "FieldFilter_loop B f ps inc exc = Inr r \<Longrightarrow>
     included r = inc @ filter (\<lambda>p. case FieldFilter_loop B f [p] [] [] of
                                     Inr r1 \<Rightarrow> included r1 = [p] | Inl e \<Rightarrow> False) ps \<and>
     excluded r = exc @ concat (map (\<lambda>p. case FieldFilter_loop B f [p] [] [] of
                                            Inr r1 \<Rightarrow> excluded r1 | Inl e \<Rightarrow> [])
                                 (filter (\<lambda>p. \<not> (case FieldFilter_loop B f [p] [] [] of
                                     Inr r1 \<Rightarrow> included r1 = [p] | Inl e \<Rightarrow> False)) ps))"
proof (induction ps arbitrary: inc exc)
  case Nil
  then show ?case by auto
next
  case (Cons p ps)
  show ?case
  proof (cases "dict_get (metadata p) (field f) = VNone")
    case True
    then show ?thesis using Cons.prems Cons.IH
      by (cases "include_missing f") (auto simp: Let_def)
  next
    case False
    show ?thesis
    proof (cases "matches f (dict_get (metadata p) (field f))")
      case (Inl e)
      then show ?thesis using Cons.prems False by (simp add: Let_def)
    next
      case (Inr b)
      then show ?thesis using Cons.prems Cons.IH False
        by (cases b) (auto simp: Let_def)
    qed
  qed
qed

lemma FieldFilter_loop_total:
  "\<forall>p\<in>set ps. \<exists>r1. FieldFilter_loop B f [p] [] [] = Inr r1 \<Longrightarrow>
     \<exists>r. FieldFilter_loop B f ps inc exc = Inr r"
proof (induction ps arbitrary: inc exc)
  case Nil
  then show ?case by simp
next
  case (Cons p ps)
  show ?case
  proof (cases "dict_get (metadata p) (field f) = VNone")
    case True
    then show ?thesis using Cons by (simp add: Let_def)
  next
    case False
    show ?thesis
    proof (cases "matches f (dict_get (metadata p) (field f))")
      case (Inl e)
      then show ?thesis using Cons.prems False by (simp add: Let_def)
    next
      case (Inr b)
      then show ?thesis using Cons False
        by (cases b) (auto simp: Let_def)
    qed
  qed
qed

lemma any_allowed_hashable:
  "list_all hashable vs \<Longrightarrow>
     any_allowed f vs =
       Inr (list_ex (\<lambda>v. list_ex (py_eq (normalize_value f v)) (normalized_allowed f)) vs)"
proof (induction vs)
  case Nil
  show ?case by simp
next
  case (Cons v vs)
  then have "hashable (normalize_value f v)"
    by (cases v) (auto simp: normalize_value_def lower_if_str_def)
  then show ?case using Cons by (auto simp: set_contains_def split: bool.splits)
qed

lemma matches_hashable_value:
  "hashable_value v \<Longrightarrow>
     matches f v =
       Inr (case v of
              VList vs \<Rightarrow> list_ex (\<lambda>e. list_ex (py_eq (normalize_value f e)) (normalized_allowed f)) vs
            | _ \<Rightarrow> list_ex (py_eq (normalize_value f v)) (normalized_allowed f))"
  by (cases v)
     (auto simp: matches_def hashable_value_def any_allowed_hashable set_contains_def
        normalize_value_def lower_if_str_def)

lemma FieldFilter_single_ok:
  "hashable_value (dict_get (metadata p) (field f)) \<Longrightarrow> \<exists>r1. FieldFilter_loop B f [p] [] [] = Inr r1"
  by (auto simp: Let_def matches_hashable_value split: bool.splits)

subsection \<open>Field filter: the loop\<close>

lemma FieldFilter_loop_Inr_single:
  "FieldFilter_loop B f ps inc exc = Inr r \<Longrightarrow> p \<in> set ps \<Longrightarrow>
     \<exists>r1. FieldFilter_loop B f [p] [] [] = Inr r1"
proof (induction ps arbitrary: inc exc)
  case Nil
  then show ?case by simp
next
  case (Cons q ps)
  show ?case
  proof (cases "dict_get (metadata q) (field f) = VNone")
    case True
    then show ?thesis using Cons
      by (cases "include_missing f") (auto simp: Let_def)
  next
    case False
    show ?thesis
    proof (cases "matches f (dict_get (metadata q) (field f))")
      case (Inl e)
      then show ?thesis using Cons.prems False by (simp add: Let_def)
    next
      case (Inr b)
      then show ?thesis using Cons False
        by (cases b) (auto simp: Let_def)
    qed
  qed
qed

subsection \<open>All filters\<close>

lemma concat_rejected:
  "concat (map (\<lambda>p. if P p then [] else [g p]) (filter (\<lambda>p. \<not> P p) xs)) = map g (filter (\<lambda>p. \<not> P p) xs)"
  by (induction xs) simp_all

lemma Filter_accepts_Confidence:
  "Filter_accepts B (ConfidenceF c) p = (min_confidence c \<le> confidence_score p)"
  by (simp add: Filter_accepts_def ConfidenceFilter_apply_eq)

lemma Filter_rejection_Confidence:
  "Filter_rejection B (ConfidenceF c) p =
     (if min_confidence c \<le> confidence_score p then [] else [ConfidenceFilter_item B c p])"
  by (simp add: Filter_rejection_def ConfidenceFilter_apply_eq)

lemma Filter_accepts_DateRange:
  "Filter_accepts B (DateRangeF d) p = overlaps_range p (start_date d) (end_date d)"
  by (simp add: Filter_accepts_def DateRangeFilter_apply_eq)

lemma Filter_rejection_DateRange:
  "Filter_rejection B (DateRangeF d) p =
     (if overlaps_range p (start_date d) (end_date d) then []
      else [if has_valid_date p then DateRangeFilter_outside_item d p
            else DateRangeFilter_missing_item d p])"
  by (simp add: Filter_rejection_def DateRangeFilter_apply_eq)

lemma Filter_apply_Inr:
  assumes "Filter_apply B f ps = Inr r"
  shows "included r = filter (Filter_accepts B f) ps"
    and "excluded r = concat (map (Filter_rejection B f) (filter (\<lambda>p. \<not> Filter_accepts B f p) ps))"
proof -
  have "included r = filter (Filter_accepts B f) ps \<and>
        excluded r = concat (map (Filter_rejection B f) (filter (\<lambda>p. \<not> Filter_accepts B f p) ps))"
  proof (cases f)
    case (ConfidenceF c)
    then have r: "r = ConfidenceFilter_apply B c ps" using assms by simp
    show ?thesis unfolding r ConfidenceF
      by (simp add: ConfidenceFilter_apply_eq Filter_accepts_Confidence [abs_def]
          Filter_rejection_Confidence [abs_def] concat_rejected)
  next
    case (DateRangeF d)
    then have r: "r = DateRangeFilter_apply d ps" using assms by simp
    show ?thesis unfolding r DateRangeF
      by (simp add: DateRangeFilter_apply_eq Filter_accepts_DateRange [abs_def]
          Filter_rejection_DateRange [abs_def] concat_rejected)
  next
    case (FieldF ff)
    then have "FieldFilter_loop B ff ps [] [] = Inr r"
      using assms by (simp add: FieldFilter_apply_def)
    from FieldFilter_loop_Inr [OF this] show ?thesis unfolding FieldF
      by (simp add: Filter_accepts_def [abs_def] Filter_rejection_def [abs_def] FieldFilter_apply_def)
  qed
  then show "included r = filter (Filter_accepts B f) ps"
    and "excluded r = concat (map (Filter_rejection B f) (filter (\<lambda>p. \<not> Filter_accepts B f p) ps))"
    by simp_all
qed

lemma Filter_apply_Inr_single:
  assumes "Filter_apply B f ps = Inr r" and "p \<in> set ps"
  shows "\<exists>r1. Filter_apply B f [p] = Inr r1"
proof (cases f)
  case (FieldF ff)
  then have "FieldFilter_loop B ff ps [] [] = Inr r"
    using assms by (simp add: FieldFilter_apply_def)
  from FieldFilter_loop_Inr_single [OF this assms(2)] show ?thesis
    unfolding FieldF by (simp add: FieldFilter_apply_def)
qed simp_all

lemma Filter_apply_total:
  assumes "\<forall>p\<in>set ps. Filter_input_ok f p"
  shows "\<exists>r. Filter_apply B f ps = Inr r"
proof (cases f)
  case (FieldF ff)
  have "\<forall>p\<in>set ps. \<exists>r1. FieldFilter_loop B ff [p] [] [] = Inr r1"
    using assms FieldFilter_single_ok unfolding FieldF by simp
  from FieldFilter_loop_total [OF this] show ?thesis
    unfolding FieldF by (simp add: FieldFilter_apply_def)
qed simp_all

lemma Filter_rejection_single:
  assumes "\<not> Filter_accepts B f p" and "Filter_apply B f [p] = Inr r1"
  shows "\<exists>item. Filter_rejection B f p = [item] \<and> item_name item = perf_label p \<and>
           item_type item = ''performance'' \<and> filter_name item = Some (Filter_name B f)"
proof (cases f)
  case (ConfidenceF c)
  then show ?thesis using assms
    by (simp add: Filter_accepts_Confidence Filter_rejection_Confidence ConfidenceFilter_item_def)
next
  case (DateRangeF d)
  then show ?thesis using assms
    by (simp add: Filter_accepts_DateRange Filter_rejection_DateRange
        DateRangeFilter_outside_item_def DateRangeFilter_missing_item_def)
next
  case (FieldF ff)
  then show ?thesis using assms
    by (auto simp: Filter_accepts_def Filter_rejection_def FieldFilter_apply_def Let_def
        FieldFilter_missing_item_def FieldFilter_value_item_def
        split: if_splits sum.splits bool.splits)
qed

lemma Filter_rejected_names:
  assumes "\<forall>p\<in>set ps. \<exists>r1. Filter_apply B f [p] = Inr r1"
  shows "map item_name (concat (map (Filter_rejection B f) (filter (\<lambda>p. \<not> Filter_accepts B f p) ps)))
           = map perf_label (filter (\<lambda>p. \<not> Filter_accepts B f p) ps)"
  using assms
proof (induction ps)
  case Nil
  show ?case by simp
next
  case (Cons p ps)
  show ?case
  proof (cases "Filter_accepts B f p")
    case True
    then show ?thesis using Cons by simp
  next
    case False
    from Cons.prems obtain r1 where "Filter_apply B f [p] = Inr r1" by auto
    from Filter_rejection_single [OF False this] obtain item
      where "Filter_rejection B f p = [item]" "item_name item = perf_label p" by blast
    then show ?thesis using False Cons by simp
  qed
qed

text \<open>
  Claim C1. Each of the three filters (confidence, date range, field) decides every record
  on its own, the decision being the one the filter takes on that record alone. Whenever a
  filter returns, its included list is the input list restricted to the records it accepts,
  in input order, and its excluded list has one item for each record it does not accept, in
  input order and carrying that record's display name; so every input record is in exactly
  one of the two lists and the lengths add up to the length of the input. A filter returns
  on every input whose metadata values under the filtered key are well formed; the
  confidence and the date-range filter read no metadata and always return.
\<close>

theorem C1_filters_partition:
  "(Filter_apply B f ps = Inr r \<longrightarrow>
      included r = filter (Filter_accepts B f) ps \<and>
      map item_name (excluded r) = map perf_label (filter (\<lambda>p. \<not> Filter_accepts B f p) ps) \<and>
      length (included r) + length (excluded r) = length ps) \<and>
   ((\<forall>p\<in>set ps. Filter_input_ok f p) \<longrightarrow> (\<exists>r'. Filter_apply B f ps = Inr r'))"
proof (intro conjI impI)
  assume a: "Filter_apply B f ps = Inr r"
  show inc: "included r = filter (Filter_accepts B f) ps"
    by (rule Filter_apply_Inr(1) [OF a])
  have "\<forall>p\<in>set ps. \<exists>r1. Filter_apply B f [p] = Inr r1"
    using Filter_apply_Inr_single [OF a] by blast
  then show names: "map item_name (excluded r) = map perf_label (filter (\<lambda>p. \<not> Filter_accepts B f p) ps)"
    unfolding Filter_apply_Inr(2) [OF a] by (rule Filter_rejected_names)
  have "length (excluded r) = length (filter (\<lambda>p. \<not> Filter_accepts B f p) ps)"
    using arg_cong [OF names, of length] by simp
  then show "length (included r) + length (excluded r) = length ps"
    unfolding inc by (simp add: sum_length_filter_compl)
next
  assume "\<forall>p\<in>set ps. Filter_input_ok f p"
  then show "\<exists>r'. Filter_apply B f ps = Inr r'" by (rule Filter_apply_total)
qed


lemma lower_samples:
  "lower ''Punk'' = ''punk''" "lower ''Jazz'' = ''jazz''" "lower ''Rock'' = ''rock''"
  "lower ''punk'' = ''punk''" "lower ''rock'' = ''rock''"
  by (simp_all add: lower_def lower_char_def)

theorem C1_filters_partition_witness:
  "(\<exists>r. Filter_apply sample_builtins (FieldF sample_genre_filter)
          [sample_genre ''A'' (Some (VStr ''Punk'')), sample_genre ''B'' None,
           sample_genre ''C'' (Some (VList [VStr ''Jazz'', VStr ''Rock''])),
           sample_genre ''D'' (Some (VStr ''Jazz''))] = Inr r \<and>
        included r = [sample_genre ''A'' (Some (VStr ''Punk'')),
                      sample_genre ''C'' (Some (VList [VStr ''Jazz'', VStr ''Rock'']))] \<and>
        map item_name (excluded r) = [''B @ CBGB'', ''D @ CBGB''] \<and>
        length (included r) + length (excluded r) = 4) \<and>
   (\<exists>r. Filter_apply sample_builtins (ConfidenceF \<lparr>min_confidence = 1 / 2\<rparr>)
          [sample_performance ''A'' (49 / 100) None None Map.empty,
           sample_performance ''B'' (1 / 2) None None Map.empty] = Inr r \<and>
        included r = [sample_performance ''B'' (1 / 2) None None Map.empty] \<and>
        map item_name (excluded r) = [''A @ CBGB'']) \<and>
   (\<exists>r. Filter_apply sample_builtins (DateRangeF sample_window)
          [sample_performance ''A'' 1 None None Map.empty,
           sample_performance ''B'' 1 (Some (sample_date 1978 10 5)) None Map.empty] = Inr r \<and>
        included r = [sample_performance ''B'' 1 (Some (sample_date 1978 10 5)) None Map.empty] \<and>
        map item_name (excluded r) = [''A @ CBGB''])"
proof (intro conjI)
  let ?B = sample_builtins
  let ?F = "FieldF sample_genre_filter"
  let ?ps = "[sample_genre ''A'' (Some (VStr ''Punk'')), sample_genre ''B'' None,
           sample_genre ''C'' (Some (VList [VStr ''Jazz'', VStr ''Rock''])),
           sample_genre ''D'' (Some (VStr ''Jazz''))]"
  have ok: "\<forall>p\<in>set ?ps. Filter_input_ok ?F p"
    by (simp add: sample_genre_filter_def FieldFilter_init_def sample_genre_def
        sample_performance_def dict_get_def hashable_value_def)
  from C1_filters_partition [of ?B ?F ?ps, THEN conjunct2, THEN mp, OF ok]
  obtain r where r: "Filter_apply ?B ?F ?ps = Inr r" ..
  have acc: "filter (Filter_accepts ?B ?F) ?ps =
      [sample_genre ''A'' (Some (VStr ''Punk'')),
       sample_genre ''C'' (Some (VList [VStr ''Jazz'', VStr ''Rock'']))]"
    and rej: "map perf_label (filter (\<lambda>p. \<not> Filter_accepts ?B ?F p) ?ps) = [''B @ CBGB'', ''D @ CBGB'']"
    by (simp_all add: Filter_accepts_def FieldFilter_apply_def sample_genre_filter_def
        FieldFilter_init_def sample_genre_def sample_performance_def dict_get_def matches_def
        set_contains_def normalize_value_def lower_if_str_def lower_samples perf_label_def)
  note part = C1_filters_partition [of ?B ?F ?ps r, THEN conjunct1, THEN mp, OF r]
  note i1 = part [THEN conjunct1]
    and i2 = part [THEN conjunct2, THEN conjunct1]
    and i3 = part [THEN conjunct2, THEN conjunct2]
  have i4: "length (included r) + length (excluded r) = 4" using i3 by simp
  show "\<exists>r. Filter_apply ?B ?F ?ps = Inr r \<and>
        included r = [sample_genre ''A'' (Some (VStr ''Punk'')),
                      sample_genre ''C'' (Some (VList [VStr ''Jazz'', VStr ''Rock'']))] \<and>
        map item_name (excluded r) = [''B @ CBGB'', ''D @ CBGB''] \<and>
        length (included r) + length (excluded r) = 4"
    by (rule exI [of _ r]) (intro conjI r i1 [unfolded acc] i2 [unfolded rej] i4)
next
  let ?B = sample_builtins
  let ?F = "ConfidenceF \<lparr>min_confidence = 1 / 2\<rparr>"
  let ?ps = "[sample_performance ''A'' (49 / 100) None None Map.empty,
           sample_performance ''B'' (1 / 2) None None Map.empty]"
  have ok: "\<forall>p\<in>set ?ps. Filter_input_ok ?F p" by simp
  from C1_filters_partition [of ?B ?F ?ps, THEN conjunct2, THEN mp, OF ok]
  obtain r where r: "Filter_apply ?B ?F ?ps = Inr r" ..
  have acc: "filter (Filter_accepts ?B ?F) ?ps = [sample_performance ''B'' (1 / 2) None None Map.empty]"
    and rej: "map perf_label (filter (\<lambda>p. \<not> Filter_accepts ?B ?F p) ?ps) = [''A @ CBGB'']"
    by (simp_all add: Filter_accepts_Confidence sample_performance_def perf_label_def)
  note part = C1_filters_partition [of ?B ?F ?ps r, THEN conjunct1, THEN mp, OF r]
  note i1 = part [THEN conjunct1]
    and i2 = part [THEN conjunct2, THEN conjunct1]
    and i3 = part [THEN conjunct2, THEN conjunct2]
  show "\<exists>r. Filter_apply ?B ?F ?ps = Inr r \<and>
        included r = [sample_performance ''B'' (1 / 2) None None Map.empty] \<and>
        map item_name (excluded r) = [''A @ CBGB'']"
    by (rule exI [of _ r]) (intro conjI r i1 [unfolded acc] i2 [unfolded rej])
next
  let ?B = sample_builtins
  let ?F = "DateRangeF sample_window"
  let ?ps = "[sample_performance ''A'' 1 None None Map.empty,
           sample_performance ''B'' 1 (Some (sample_date 1978 10 5)) None Map.empty]"
  have ok: "\<forall>p\<in>set ?ps. Filter_input_ok ?F p" by simp
  from C1_filters_partition [of ?B ?F ?ps, THEN conjunct2, THEN mp, OF ok]
  obtain r where r: "Filter_apply ?B ?F ?ps = Inr r" ..
  have acc: "filter (Filter_accepts ?B ?F) ?ps =
      [sample_performance ''B'' 1 (Some (sample_date 1978 10 5)) None Map.empty]"
    and rej: "map perf_label (filter (\<lambda>p. \<not> Filter_accepts ?B ?F p) ?ps) = [''A @ CBGB'']"
    by (simp_all add: Filter_accepts_DateRange sample_performance_def perf_label_def
        overlaps_range_def sample_window_def sample_date_def date_le_def)
  note part = C1_filters_partition [of ?B ?F ?ps r, THEN conjunct1, THEN mp, OF r]
  note i1 = part [THEN conjunct1]
    and i2 = part [THEN conjunct2, THEN conjunct1]
    and i3 = part [THEN conjunct2, THEN conjunct2]
  show "\<exists>r. Filter_apply ?B ?F ?ps = Inr r \<and>
        included r = [sample_performance ''B'' 1 (Some (sample_date 1978 10 5)) None Map.empty] \<and>
        map item_name (excluded r) = [''A @ CBGB'']"
    by (rule exI [of _ r]) (intro conjI r i1 [unfolded acc] i2 [unfolded rej])
qed

subsection \<open>Field filter: the decision for one record\<close>

lemma list_ex_py_eq_map:
  "list_ex (py_eq x) (map g allowed) = (\<exists>a\<in>set allowed. py_eq x (g a))"
  by (simp add: list_ex_iff)





subsection \<open>Filter chain\<close>

lemma claimed_split:
  "mset (concat (map (\<lambda>p. case find (\<lambda>g. \<not> Filter_accepts B g p) (f # fs) of
                               None \<Rightarrow> [] | Some g \<Rightarrow> Filter_rejection B g p) cur)) =
   mset (concat (map (Filter_rejection B f) (filter (\<lambda>p. \<not> Filter_accepts B f p) cur))) +
   mset (concat (map (\<lambda>p. case find (\<lambda>g. \<not> Filter_accepts B g p) fs of
                               None \<Rightarrow> [] | Some g \<Rightarrow> Filter_rejection B g p)
                     (filter (Filter_accepts B f) cur)))"
  by (induction cur) simp_all

lemma FilterChain_loop_Inr:
  "FilterChain_loop B fs cur exc = Inr r \<Longrightarrow>
     included r = filter (\<lambda>p. \<forall>f\<in>set fs. Filter_accepts B f p) cur \<and>
     mset (excluded r) =
       mset exc + mset (concat (map (\<lambda>p. case find (\<lambda>g. \<not> Filter_accepts B g p) fs of
                                            None \<Rightarrow> [] | Some g \<Rightarrow> Filter_rejection B g p) cur)) \<and>
     (\<forall>p\<in>set cur. \<forall>g. find (\<lambda>g. \<not> Filter_accepts B g p) fs = Some g \<longrightarrow>
        (\<exists>r1. Filter_apply B g [p] = Inr r1))"
proof (induction fs arbitrary: cur exc)
  case Nil
  then show ?case by auto
next
  case (Cons f fs)
  from Cons.prems obtain r1 where r1: "Filter_apply B f cur = Inr r1"
    and rest: "FilterChain_loop B fs (included r1) (exc @ excluded r1) = Inr r"
    by (auto split: sum.splits)
  note inc1 = Filter_apply_Inr(1) [OF r1] and exc1 = Filter_apply_Inr(2) [OF r1]
  note ih = Cons.IH [OF rest]
  have a: "included r = filter (\<lambda>p. \<forall>g\<in>set (f # fs). Filter_accepts B g p) cur"
    using ih by (simp add: inc1 conj_commute)
  have b: "mset (excluded r) =
       mset exc + mset (concat (map (\<lambda>p. case find (\<lambda>g. \<not> Filter_accepts B g p) (f # fs) of
                                            None \<Rightarrow> [] | Some g \<Rightarrow> Filter_rejection B g p) cur))"
    using ih unfolding claimed_split by (simp add: inc1 exc1)
  have c: "\<exists>r1. Filter_apply B g [p] = Inr r1"
    if "p \<in> set cur" and "find (\<lambda>g. \<not> Filter_accepts B g p) (f # fs) = Some g" for p g
  proof (cases "Filter_accepts B f p")
    case True
    then have "p \<in> set (included r1)" and "find (\<lambda>g. \<not> Filter_accepts B g p) fs = Some g"
      using that by (simp_all add: inc1)
    then show ?thesis using ih by blast
  next
    case False
    then have "g = f" using that by simp
    then show ?thesis using Filter_apply_Inr_single [OF r1 that(1)] by simp
  qed
  from a b c show ?case by blast
qed

lemma FilterChain_loop_total:
  "\<forall>f\<in>set fs. \<forall>p\<in>set cur. Filter_input_ok f p \<Longrightarrow> \<exists>r. FilterChain_loop B fs cur exc = Inr r"
proof (induction fs arbitrary: cur exc)
  case Nil
  show ?case by simp
next
  case (Cons f fs)
  then have "\<forall>p\<in>set cur. Filter_input_ok f p" by simp
  from Filter_apply_total [OF this] obtain r1 where r1: "Filter_apply B f cur = Inr r1" ..
  have "set (included r1) \<subseteq> set cur" by (simp add: Filter_apply_Inr(1) [OF r1])
  then have "\<forall>g\<in>set fs. \<forall>p\<in>set (included r1). Filter_input_ok g p" using Cons.prems by auto
  from Cons.IH [OF this] show ?case by (simp add: r1)
qed

lemma claimed_length:
  assumes "\<forall>p\<in>set cur. \<forall>g. find (\<lambda>g. \<not> Filter_accepts B g p) fs = Some g \<longrightarrow>
        (\<exists>r1. Filter_apply B g [p] = Inr r1)"
  shows "length (concat (map (\<lambda>p. case find (\<lambda>g. \<not> Filter_accepts B g p) fs of
                                            None \<Rightarrow> [] | Some g \<Rightarrow> Filter_rejection B g p) cur)) =
         length (filter (\<lambda>p. \<exists>f\<in>set fs. \<not> Filter_accepts B f p) cur)"
  using assms
proof (induction cur)
  case Nil
  show ?case by simp
next
  case (Cons p cur)
  show ?case
  proof (cases "find (\<lambda>g. \<not> Filter_accepts B g p) fs")
    case None
    then have "\<not> (\<exists>f\<in>set fs. \<not> Filter_accepts B f p)" by (simp add: find_None_iff)
    then show ?thesis using None Cons by simp
  next
    case (Some g)
    then have g: "\<not> Filter_accepts B g p" "g \<in> set fs"
      by (auto simp: find_Some_iff)
    from Cons.prems Some obtain r1 where "Filter_apply B g [p] = Inr r1" by auto
    from Filter_rejection_single [OF g(1) this] obtain item where "Filter_rejection B g p = [item]"
      by blast
    moreover have "\<exists>f\<in>set fs. \<not> Filter_accepts B f p" using g by blast
    ultimately show ?thesis using Some Cons by simp
  qed
qed

text \<open>
  Claim C5. Take two chains of confidence, date-range and field filters that hold the same
  filters in a different order, and an input on which both chains return. Their included
  lists are equal, as lists, and they exclude the same number of records. The included list
  of a chain is the input restricted to the records that every filter of the chain accepts;
  each other record is excluded exactly once, by the first filter in chain order that does
  not accept it, with the item that this filter produces for it, so the order decides only
  which filter's item a record failing several filters receives. A chain returns on every
  input whose metadata values under the filtered keys are well formed.
\<close>

theorem C5_filter_chain_order:
  "(mset gs = mset fs \<and> FilterChain_apply B fs ps = Inr r \<and> FilterChain_apply B gs ps = Inr r' \<longrightarrow>
      included r' = included r \<and> length (excluded r') = length (excluded r)) \<and>
   (FilterChain_apply B fs ps = Inr r \<longrightarrow>
      included r = filter (\<lambda>p. \<forall>f\<in>set fs. Filter_accepts B f p) ps \<and>
      mset (excluded r) =
        mset (concat (map (\<lambda>p. case find (\<lambda>f. \<not> Filter_accepts B f p) fs of
                                  None \<Rightarrow> [] | Some f \<Rightarrow> Filter_rejection B f p) ps)) \<and>
      length (excluded r) = length (filter (\<lambda>p. \<exists>f\<in>set fs. \<not> Filter_accepts B f p) ps)) \<and>
   ((\<forall>f\<in>set fs. \<forall>p\<in>set ps. Filter_input_ok f p) \<longrightarrow> (\<exists>r''. FilterChain_apply B fs ps = Inr r''))"
proof -
  have one: "included x = filter (\<lambda>p. \<forall>f\<in>set hs. Filter_accepts B f p) ps \<and>
      mset (excluded x) =
        mset (concat (map (\<lambda>p. case find (\<lambda>f. \<not> Filter_accepts B f p) hs of
                                  None \<Rightarrow> [] | Some f \<Rightarrow> Filter_rejection B f p) ps)) \<and>
      length (excluded x) = length (filter (\<lambda>p. \<exists>f\<in>set hs. \<not> Filter_accepts B f p) ps)"
    if "FilterChain_apply B hs ps = Inr x" for hs x
  proof -
    from that have "FilterChain_loop B hs ps [] = Inr x" by (simp add: FilterChain_apply_def)
    note l = FilterChain_loop_Inr [OF this]
    from l have m: "mset (excluded x) =
        mset (concat (map (\<lambda>p. case find (\<lambda>f. \<not> Filter_accepts B f p) hs of
                                  None \<Rightarrow> [] | Some f \<Rightarrow> Filter_rejection B f p) ps))"
      by simp
    have "length (excluded x) = size (mset (excluded x))" by simp
    also have "\<dots> = length (concat (map (\<lambda>p. case find (\<lambda>f. \<not> Filter_accepts B f p) hs of
                                  None \<Rightarrow> [] | Some f \<Rightarrow> Filter_rejection B f p) ps))"
      unfolding m by simp
    also have "\<dots> = length (filter (\<lambda>p. \<exists>f\<in>set hs. \<not> Filter_accepts B f p) ps)"
      using l by (intro claimed_length) blast
    finally show ?thesis using l m by blast
  qed
  have two: "included r' = included r \<and> length (excluded r') = length (excluded r)"
    if "mset gs = mset fs" "FilterChain_apply B fs ps = Inr r" "FilterChain_apply B gs ps = Inr r'"
  proof -
    from that(1) have "set gs = set fs" by (rule mset_eq_setD)
    then show ?thesis using one [OF that(2)] one [OF that(3)] by simp
  qed
  have three: "\<exists>r''. FilterChain_apply B fs ps = Inr r''"
    if "\<forall>f\<in>set fs. \<forall>p\<in>set ps. Filter_input_ok f p"
    unfolding FilterChain_apply_def using that by (rule FilterChain_loop_total)
  from one [of fs r] two three show ?thesis by blast
qed


lemma sample_window_name: "DateRangeFilter_name sample_window = ''date_range(1978-09-01:1978-12-31)''"
  by (simp add: DateRangeFilter_name_def sample_window_def sample_date_def str_date_def
      str_int_def str_nat_small str_nat_big zero_pad_def digit_char_def)

lemma sample_performance_sel:
  "confidence_score (sample_performance a s d r m) = s"
  "performance_date (sample_performance a s d r m) = d"
  "performance_date_range (sample_performance a s d r m) = r"
  "metadata (sample_performance a s d r m) = m"
  "artist_name (sample_performance a s d r m) = a"
  "venue_name (sample_performance a s d r m) = ''CBGB''"
  by (simp_all add: sample_performance_def)

theorem C5_filter_chain_order_witness:
  "\<exists>r r'.
     FilterChain_apply sample_builtins
       [DateRangeF sample_window, ConfidenceF \<lparr>min_confidence = 1 / 2\<rparr>]
       [sample_performance ''A'' (3 / 10) None None Map.empty,
        sample_performance ''B'' 1 (Some (sample_date 1978 10 5)) None Map.empty] = Inr r \<and>
     FilterChain_apply sample_builtins
       [ConfidenceF \<lparr>min_confidence = 1 / 2\<rparr>, DateRangeF sample_window]
       [sample_performance ''A'' (3 / 10) None None Map.empty,
        sample_performance ''B'' 1 (Some (sample_date 1978 10 5)) None Map.empty] = Inr r' \<and>
     included r' = included r \<and>
     included r = [sample_performance ''B'' 1 (Some (sample_date 1978 10 5)) None Map.empty] \<and>
     length (excluded r') = length (excluded r) \<and>
     length (excluded r) = 1 \<and>
     map filter_name (excluded r) = [Some ''date_range(1978-09-01:1978-12-31)''] \<and>
     map filter_name (excluded r') = [Some ''confidence(>=0.5)'']"
proof -
  let ?B = sample_builtins
  let ?d = "DateRangeF sample_window"
  let ?c = "ConfidenceF \<lparr>min_confidence = 1 / 2\<rparr>"
  let ?a = "sample_performance ''A'' (3 / 10) None None Map.empty"
  let ?b = "sample_performance ''B'' 1 (Some (sample_date 1978 10 5)) None Map.empty"
  have ok: "\<forall>f\<in>set [?d, ?c]. \<forall>p\<in>set [?a, ?b]. Filter_input_ok f p"
    and ok': "\<forall>f\<in>set [?c, ?d]. \<forall>p\<in>set [?a, ?b]. Filter_input_ok f p"
    by simp_all
  from C5_filter_chain_order [of "[?c, ?d]" "[?d, ?c]" ?B "[?a, ?b]", THEN conjunct2, THEN conjunct2,
      THEN mp, OF ok]
  obtain r where r: "FilterChain_apply ?B [?d, ?c] [?a, ?b] = Inr r" ..
  from C5_filter_chain_order [of "[?d, ?c]" "[?c, ?d]" ?B "[?a, ?b]", THEN conjunct2, THEN conjunct2,
      THEN mp, OF ok']
  obtain r' where r': "FilterChain_apply ?B [?c, ?d] [?a, ?b] = Inr r'" ..
  have perm: "mset [?c, ?d] = mset [?d, ?c]" by simp
  note same = C5_filter_chain_order [of "[?c, ?d]" "[?d, ?c]" ?B "[?a, ?b]" r r', THEN conjunct1,
      THEN mp, OF conjI [OF perm conjI [OF r r']]]
  note shape = C5_filter_chain_order [of "[?c, ?d]" "[?d, ?c]" ?B "[?a, ?b]" r r', THEN conjunct2,
      THEN conjunct1, THEN mp, OF r]
  have acc: "filter (\<lambda>p. \<forall>f\<in>set [?d, ?c]. Filter_accepts ?B f p) [?a, ?b] = [?b]"
    by (simp add: Filter_accepts_DateRange Filter_accepts_Confidence sample_performance_def
        overlaps_range_def sample_window_def sample_date_def date_le_def)
  have rej: "length (filter (\<lambda>p. \<exists>f\<in>set [?d, ?c]. \<not> Filter_accepts ?B f p) [?a, ?b]) = 1"
    by (simp add: Filter_accepts_DateRange Filter_accepts_Confidence sample_performance_def
        overlaps_range_def sample_window_def sample_date_def date_le_def)
  have ov: "\<not> overlaps_range ?a (start_date sample_window) (end_date sample_window)"
      "overlaps_range ?b (start_date sample_window) (end_date sample_window)"
      "\<not> has_valid_date ?a"
    by (simp_all add: sample_performance_def overlaps_range_def has_valid_date_def
        sample_window_def sample_date_def date_le_def)
  have "FilterChain_apply ?B [?d, ?c] [?a, ?b] =
      Inr \<lparr>included = [?b], excluded = [DateRangeFilter_missing_item sample_window ?a]\<rparr>"
    by (simp add: FilterChain_apply_def DateRangeFilter_apply_eq ConfidenceFilter_apply_eq ov sample_performance_sel)
  with r have "r = \<lparr>included = [?b], excluded = [DateRangeFilter_missing_item sample_window ?a]\<rparr>"
    by simp
  then have n: "map filter_name (excluded r) = [Some (DateRangeFilter_name sample_window)]"
    by (simp add: DateRangeFilter_missing_item_def)
  have "FilterChain_apply ?B [?c, ?d] [?a, ?b] =
      Inr \<lparr>included = [?b], excluded = [ConfidenceFilter_item ?B \<lparr>min_confidence = 1 / 2\<rparr> ?a]\<rparr>"
    by (simp add: FilterChain_apply_def DateRangeFilter_apply_eq ConfidenceFilter_apply_eq ov sample_performance_sel)
  with r' have "r' = \<lparr>included = [?b], excluded = [ConfidenceFilter_item ?B \<lparr>min_confidence = 1 / 2\<rparr> ?a]\<rparr>"
    by simp
  then have n': "map filter_name (excluded r') = [Some ''confidence(>=0.5)'']"
    by (simp add: ConfidenceFilter_item_def ConfidenceFilter_name_def sample_builtins_def)
  show ?thesis
    by (rule exI [of _ r], rule exI [of _ r'])
       (intro conjI r r' same [THEN conjunct1] same [THEN conjunct2]
          shape [THEN conjunct1, unfolded acc]
          shape [THEN conjunct2, THEN conjunct2, unfolded rej]
          n [unfolded sample_window_name] n')
qed

subsection \<open>Strategy resolver\<close>

lemma split_on_first: "\<exists>rest. split_on sep s = takeWhile (\<lambda>c. c \<noteq> sep) s # rest"
  by (induction s) (auto split: list.splits)

lemma takeWhile_no_sep: "sep \<notin> set s \<Longrightarrow> takeWhile (\<lambda>c. c \<noteq> sep) s = s"
  by (induction s) auto

lemma strategy_name_prefix:
  "(if CHR ''-'' \<in> set name
    then (case split_on (CHR ''-'') name of p # _ \<Rightarrow> lower p | [] \<Rightarrow> lower [])
    else lower name) = lower (takeWhile (\<lambda>c. c \<noteq> CHR ''-'') name)"
proof (cases "CHR ''-'' \<in> set name")
  case True
  obtain rest where "split_on (CHR ''-'') name = takeWhile (\<lambda>c. c \<noteq> CHR ''-'') name # rest"
    using split_on_first by blast
  then show ?thesis using True by simp
next
  case False
  then show ?thesis by (simp add: takeWhile_no_sep)
qed

lemma get_strategy_prefix:
  "get_strategy name kw =
     (let prefix = lower (takeWhile (\<lambda>c. c \<noteq> CHR ''-'') name)
      in if prefix = ''top'' \<or> prefix = ''top_n'' then (TopNStrategy, [])
         else if prefix = ''random'' \<or> prefix = ''random_n'' then (RandomNStrategy, [])
         else if prefix = ''era'' \<or> prefix = ''era_weighted'' then (EraWeightedStrategy, [])
         else if prefix = ''deep'' \<or> prefix = ''deep_cuts''
         then (DeepCutsStrategy (case kw of None \<Rightarrow> 60 | Some m \<Rightarrow> m), [])
         else (TopNStrategy,
               [\<lparr>log_level = ''warning'', log_event = ''unknown_strategy'',
                 log_fields = [(''name'', name), (''fallback'', ''top_n'')]\<rparr>]))"
  unfolding get_strategy_def strategy_name_prefix Let_def
  by (simp add: strategies_def DeepCutsStrategy_init_def)

text \<open>
  Claim C7. For every token, the resolver lowers the part of the token before its first
  hyphen (the whole token when it has no hyphen) and looks it up in the fixed table:
  \<^verbatim>\<open>top\<close> and \<^verbatim>\<open>top_n\<close> give Top-N, \<^verbatim>\<open>random\<close> and \<^verbatim>\<open>random_n\<close> give Random-N, \<^verbatim>\<open>era\<close> and
  \<^verbatim>\<open>era_weighted\<close> give era-weighted, \<^verbatim>\<open>deep\<close> and \<^verbatim>\<open>deep_cuts\<close> give deep-cuts (with the
  keyword's popularity ceiling, 60 when absent). Any other prefix gives Top-N and logs one
  warning. The function is total, so it never raises, and the strategy it returns depends
  on the prefix alone: what follows the first hyphen is not read.
\<close>

theorem C7_strategy_resolver:
  "get_strategy name kw =
     (let prefix = lower (takeWhile (\<lambda>c. c \<noteq> CHR ''-'') name)
      in if prefix = ''top'' \<or> prefix = ''top_n'' then (TopNStrategy, [])
         else if prefix = ''random'' \<or> prefix = ''random_n'' then (RandomNStrategy, [])
         else if prefix = ''era'' \<or> prefix = ''era_weighted'' then (EraWeightedStrategy, [])
         else if prefix = ''deep'' \<or> prefix = ''deep_cuts''
         then (DeepCutsStrategy (case kw of None \<Rightarrow> 60 | Some m \<Rightarrow> m), [])
         else (TopNStrategy,
               [\<lparr>log_level = ''warning'', log_event = ''unknown_strategy'',
                 log_fields = [(''name'', name), (''fallback'', ''top_n'')]\<rparr>])) \<and>
   fst (get_strategy name kw) = fst (get_strategy (takeWhile (\<lambda>c. c \<noteq> CHR ''-'') name) kw)"
proof
  show "get_strategy name kw =
     (let prefix = lower (takeWhile (\<lambda>c. c \<noteq> CHR ''-'') name)
      in if prefix = ''top'' \<or> prefix = ''top_n'' then (TopNStrategy, [])
         else if prefix = ''random'' \<or> prefix = ''random_n'' then (RandomNStrategy, [])
         else if prefix = ''era'' \<or> prefix = ''era_weighted'' then (EraWeightedStrategy, [])
         else if prefix = ''deep'' \<or> prefix = ''deep_cuts''
         then (DeepCutsStrategy (case kw of None \<Rightarrow> 60 | Some m \<Rightarrow> m), [])
         else (TopNStrategy,
               [\<lparr>log_level = ''warning'', log_event = ''unknown_strategy'',
                 log_fields = [(''name'', name), (''fallback'', ''top_n'')]\<rparr>]))"
    by (rule get_strategy_prefix)
next
  have "takeWhile (\<lambda>c. c \<noteq> CHR ''-'') (takeWhile (\<lambda>c. c \<noteq> CHR ''-'') name) =
      takeWhile (\<lambda>c. c \<noteq> CHR ''-'') name"
    by simp
  then show "fst (get_strategy name kw) = fst (get_strategy (takeWhile (\<lambda>c. c \<noteq> CHR ''-'') name) kw)"
    unfolding get_strategy_prefix [of name] get_strategy_prefix [of "takeWhile (\<lambda>c. c \<noteq> CHR ''-'') name"]
    by (simp add: Let_def)
qed

theorem C7_strategy_resolver_witness:
  "get_strategy ''deep-4'' None = (DeepCutsStrategy 60, []) \<and>
   get_strategy ''xyz-2'' None =
     (TopNStrategy,
      [\<lparr>log_level = ''warning'', log_event = ''unknown_strategy'',
        log_fields = [(''name'', ''xyz-2''), (''fallback'', ''top_n'')]\<rparr>]) \<and>
   get_strategy ''Era-2'' None = (EraWeightedStrategy, []) \<and>
   fst (get_strategy ''RANDOM_N'' None) = RandomNStrategy"
  using C7_strategy_resolver [of "''deep-4''" None] C7_strategy_resolver [of "''xyz-2''" None]
    C7_strategy_resolver [of "''Era-2''" None] C7_strategy_resolver [of "''RANDOM_N''" None]
  by (simp add: Let_def lower_def lower_char_def)

subsection \<open>Lists, sorting and slicing\<close>










subsection \<open>Era-weighted strategy\<close>


lemma py_int_empty: "py_int [] = None"
  by (simp add: py_int_def strip_def)





subsection \<open>Conversion of a track\<close>

lemma map_result_Cons_Inr:
  "(map_result f (x # xs) = Inr zs) =
     (\<exists>y ys. zs = y # ys \<and> f x = Inr y \<and> map_result f xs = Inr ys)"
  by (auto split: sum.splits)

lemma map_result_Inr_iff: "(map_result f xs = Inr ys) = list_all2 (\<lambda>x y. f x = Inr y) xs ys"
proof (induction xs arbitrary: ys)
  case Nil
  show ?case by auto
next
  case (Cons x xs)
  show ?case unfolding map_result_Cons_Inr list_all2_Cons1 Cons.IH by auto
qed


lemma caught_date_new:
  "c_int_ok y \<Longrightarrow> c_int_ok m \<Longrightarrow> c_int_ok d \<Longrightarrow> \<exists>r. caught (date_new y m d) = Inr r"
  by (simp add: caught_def date_new_def)

lemma c_int_ok_1: "c_int_ok 1"
  by (simp add: c_int_ok_def)

lemma parse_release_date_ok:
  assumes "list_all (\<lambda>p. case py_int p of None \<Rightarrow> True | Some v \<Rightarrow> c_int_ok v) (split_on (CHR ''-'') s)"
  shows "\<exists>rd. parse_release_date s = Inr rd"
proof (cases "s = []")
  case True
  then show ?thesis by (simp add: parse_release_date_def)
next
  case False
  show ?thesis
  proof (cases "split_on (CHR ''-'') s")
    case Nil
    then show ?thesis using False by (simp add: parse_release_date_def)
  next
    case l1: (Cons p0 r0)
    show ?thesis
    proof (cases r0)
      case Nil
      then show ?thesis using False l1 assms caught_date_new c_int_ok_1
        by (auto simp: parse_release_date_def split: option.splits)
    next
      case l2: (Cons p1 r1)
      show ?thesis
      proof (cases r1)
        case Nil
        then show ?thesis using False l1 l2 assms caught_date_new c_int_ok_1
          by (auto simp: parse_release_date_def split: option.splits)
      next
        case (Cons p2 r2)
        then show ?thesis using False l1 l2 assms caught_date_new
          by (auto simp: parse_release_date_def split: option.splits)
      qed
    qed
  qed
qed

lemma track_to_model_ok:
  assumes "well_formed_track t"
  shows "\<exists>m. track_to_model n t r = Inr m \<and> track_id t = Some (spotify_id m) \<and>
           track_title t = Some (track_name m) \<and> popularity m = popularity_or_0 t \<and>
           selection_strategy m = n \<and> selection_reason m = r"
proof -
  from assms obtain rd where rd: "parse_release_date (release_date_or [] t) = Inr rd"
    using parse_release_date_ok by (auto simp: well_formed_track_def)
  from assms obtain tid tname where ids: "track_id t = Some tid" "track_title t = Some tname"
    by (auto simp: well_formed_track_def)
  from assms have pop: "0 \<le> popularity_or_0 t" "popularity_or_0 t \<le> 100"
    and ar: "artists t \<noteq> Some []"
    by (simp_all add: well_formed_track_def)
  show ?thesis
  proof (cases "artists t")
    case None
    then show ?thesis using rd ids pop by (simp add: track_to_model_def)
  next
    case (Some as)
    then obtain a as' where "as = a # as'" using ar by (cases as) auto
    then show ?thesis using Some rd ids pop by (simp add: track_to_model_def)
  qed
qed


subsection \<open>Sample tracks\<close>

lemma sample_track_sel:
  "track_id (sample_track i rel pop) = Some i"
  "track_title (sample_track i rel pop) = Some i"
  "artists (sample_track i rel pop) = Some [\<lparr>artist_title = Some ''Ramones''\<rparr>]"
  "track_popularity (sample_track i rel pop) = pop"
  "popularity_or_0 (sample_track i rel pop) = (case pop of None \<Rightarrow> 0 | Some p \<Rightarrow> p)"
  "release_date_or dflt (sample_track i rel pop) = (case rel of None \<Rightarrow> dflt | Some s \<Rightarrow> s)"
  by (simp_all add: sample_track_def popularity_or_0_def release_date_or_def)





subsection \<open>Sampling\<close>

lemma mset_pick:
  assumes "j < length pool"
  shows "add_mset (pool ! j) (mset (butlast (pool[j := last pool]))) = mset pool"
proof -
  from assms have "pool \<noteq> []" by auto
  then obtain xs l where pool: "pool = xs @ [l]" by (cases pool rule: rev_cases) auto
  show ?thesis
  proof (cases "j < length xs")
    case True
    then have "xs ! j \<in># mset xs" by simp
    then show ?thesis using True by (simp add: pool list_update_append nth_append mset_update)
  next
    case False
    then have "j = length xs" using assms pool by simp
    then show ?thesis by (simp add: pool)
  qed
qed

lemma sample_loop_props:
  "k \<le> length pool \<Longrightarrow>
     length (sample_loop draws pool k) = k \<and> mset (sample_loop draws pool k) \<subseteq># mset pool"
proof (induction k arbitrary: draws pool)
  case 0
  show ?case by simp
next
  case (Suc k)
  then have ne: "pool \<noteq> []" by auto
  define j where "j = (case draws of [] \<Rightarrow> 0 | r # _ \<Rightarrow> r) mod length pool"
  have j: "j < length pool" using ne by (simp add: j_def)
  let ?rest = "butlast (pool[j := last pool])"
  have "k \<le> length ?rest" using Suc.prems by simp
  from Suc.IH [OF this, of "tl draws"]
  have len: "length (sample_loop (tl draws) ?rest k) = k"
    and sub: "mset (sample_loop (tl draws) ?rest k) \<subseteq># mset ?rest"
    by simp_all
  have eq: "sample_loop draws pool (Suc k) = pool ! j # sample_loop (tl draws) ?rest k"
    using ne by (simp add: j_def Let_def)
  have "add_mset (pool ! j) (mset (sample_loop (tl draws) ?rest k)) \<subseteq># add_mset (pool ! j) (mset ?rest)"
    using sub by simp
  then show ?case unfolding eq using len mset_pick [OF j] by simp
qed

lemma random_sample_props:
  assumes "0 \<le> k" and "k \<le> int (length pool)"
  shows "\<exists>ys. random_sample draws pool k = Inr ys \<and> length ys = nat k \<and> mset ys \<subseteq># mset pool"
proof -
  have "nat k \<le> length pool" using assms by simp
  from sample_loop_props [OF this] show ?thesis using assms by (simp add: random_sample_def)
qed

subsection \<open>Deep-cuts strategy\<close>

lemma track_to_model_Inr:
  "track_to_model n t r = Inr m \<Longrightarrow>
     track_id t = Some (spotify_id m) \<and> track_title t = Some (track_name m) \<and>
     popularity m = popularity_or_0 t \<and> selection_strategy m = n \<and> selection_reason m = r"
  by (auto simp: track_to_model_def Let_def split: sum.splits option.splits list.splits if_splits)

lemma deep_cuts_selection:
  assumes "0 \<le> cnt"
  shows "\<exists>selected.
      (if int (length (deep_cuts_pool m tracks cnt)) \<le> cnt then Inr (deep_cuts_pool m tracks cnt)
       else random_sample draws (deep_cuts_pool m tracks cnt) cnt) = Inr selected \<and>
      (int (length (deep_cuts_pool m tracks cnt)) \<le> cnt \<longrightarrow> selected = deep_cuts_pool m tracks cnt) \<and>
      (cnt < int (length (deep_cuts_pool m tracks cnt)) \<longrightarrow> length selected = nat cnt) \<and>
      mset selected \<subseteq># mset (deep_cuts_pool m tracks cnt)"
proof (cases "int (length (deep_cuts_pool m tracks cnt)) \<le> cnt")
  case True
  then show ?thesis by simp
next
  case False
  then have "cnt \<le> int (length (deep_cuts_pool m tracks cnt))" by simp
  from random_sample_props [OF assms this, of draws] show ?thesis using False by auto
qed

text \<open>
  Claim C4. The deep-cuts strategy with ceiling \<open>m\<close> (60 when none is given) takes as
  candidates exactly the tracks of popularity at most \<open>m\<close>, a missing popularity counting
  as 0. The pool is the candidate list, or, when no track qualifies, the slice
  \<^verbatim>\<open>[:2 * count]\<close> of the catalog sorted by ascending popularity (a permutation of the
  catalog), which is its first \<open>2 * count\<close> tracks for a count that is not negative. For
  such a count, the selection is the whole pool when the pool has at most \<open>count\<close> tracks
  and otherwise the result of \<^verbatim>\<open>random.sample\<close> on the pool, of exactly \<open>count\<close> tracks; in
  both cases it is drawn from the pool without repetition of a position. The result
  converts the selected tracks in order, and each returned track carries the reason
  "Deep cut: popularity" followed by the popularity of its track, or by "unknown" when the
  track has none.
\<close>

theorem C4_deep_cuts:
  "select_tracks (DeepCutsStrategy_init None) draws tracks pd cnt =
     DeepCuts_select 60 draws tracks pd cnt \<and>
   select_tracks (DeepCutsStrategy_init (Some m)) draws tracks pd cnt =
     DeepCuts_select m draws tracks pd cnt \<and>
   deep_cuts_candidates m tracks = filter (\<lambda>t. popularity_or_0 t \<le> m) tracks \<and>
   deep_cuts_pool m tracks cnt =
     (if deep_cuts_candidates m tracks = []
      then slice_to (sort_key popularity_or_0 tracks) (2 * cnt)
      else deep_cuts_candidates m tracks) \<and>
   sorted (map popularity_or_0 (sort_key popularity_or_0 tracks)) \<and>
   mset (sort_key popularity_or_0 tracks) = mset tracks \<and>
   (0 \<le> cnt \<longrightarrow>
      slice_to (sort_key popularity_or_0 tracks) (2 * cnt) =
        take (nat (2 * cnt)) (sort_key popularity_or_0 tracks) \<and>
      (\<exists>selected.
         (if int (length (deep_cuts_pool m tracks cnt)) \<le> cnt then Inr (deep_cuts_pool m tracks cnt)
          else random_sample draws (deep_cuts_pool m tracks cnt) cnt) = Inr selected \<and>
         (int (length (deep_cuts_pool m tracks cnt)) \<le> cnt \<longrightarrow>
            selected = deep_cuts_pool m tracks cnt) \<and>
         (cnt < int (length (deep_cuts_pool m tracks cnt)) \<longrightarrow> length selected = nat cnt) \<and>
         mset selected \<subseteq># mset (deep_cuts_pool m tracks cnt) \<and>
         DeepCuts_select m draws tracks pd cnt =
           map_result (\<lambda>t. track_to_model (DeepCuts_name m) t (deep_cut_reason t)) selected \<and>
         (\<forall>r. DeepCuts_select m draws tracks pd cnt = Inr r \<longrightarrow>
            list_all2 (\<lambda>t x. track_id t = Some (spotify_id x) \<and>
                              popularity x = popularity_or_0 t \<and>
                              selection_reason x =
                                ''Deep cut: popularity '' @
                                  (case track_popularity t of
                                     None \<Rightarrow> ''unknown'' | Some p \<Rightarrow> str_int p))
              selected r)))"
proof (intro conjI impI)
  show "select_tracks (DeepCutsStrategy_init None) draws tracks pd cnt =
     DeepCuts_select 60 draws tracks pd cnt"
    by (simp add: DeepCutsStrategy_init_def)
next
  show "select_tracks (DeepCutsStrategy_init (Some m)) draws tracks pd cnt =
     DeepCuts_select m draws tracks pd cnt"
    by (simp add: DeepCutsStrategy_init_def)
next
  show "deep_cuts_candidates m tracks = filter (\<lambda>t. popularity_or_0 t \<le> m) tracks"
    by (simp add: deep_cuts_candidates_def)
next
  show "deep_cuts_pool m tracks cnt =
     (if deep_cuts_candidates m tracks = []
      then slice_to (sort_key popularity_or_0 tracks) (2 * cnt)
      else deep_cuts_candidates m tracks)"
    by (simp add: deep_cuts_pool_def Let_def mult.commute)
next
  show "sorted (map popularity_or_0 (sort_key popularity_or_0 tracks))" by simp
next
  show "mset (sort_key popularity_or_0 tracks) = mset tracks" by simp
next
  assume "0 \<le> cnt"
  then show "slice_to (sort_key popularity_or_0 tracks) (2 * cnt) =
        take (nat (2 * cnt)) (sort_key popularity_or_0 tracks)"
    by (simp add: slice_to_def)
next
  assume nn: "0 \<le> cnt"
  from deep_cuts_selection [OF nn, of m tracks draws] obtain selected where
    s: "(if int (length (deep_cuts_pool m tracks cnt)) \<le> cnt then Inr (deep_cuts_pool m tracks cnt)
          else random_sample draws (deep_cuts_pool m tracks cnt) cnt) = Inr selected"
    and p: "int (length (deep_cuts_pool m tracks cnt)) \<le> cnt \<longrightarrow>
            selected = deep_cuts_pool m tracks cnt"
      "cnt < int (length (deep_cuts_pool m tracks cnt)) \<longrightarrow> length selected = nat cnt"
      "mset selected \<subseteq># mset (deep_cuts_pool m tracks cnt)"
    by blast
  have sel: "DeepCuts_select m draws tracks pd cnt =
      map_result (\<lambda>t. track_to_model (DeepCuts_name m) t (deep_cut_reason t)) selected"
    unfolding DeepCuts_select_def Let_def s by simp
  have res: "list_all2 (\<lambda>t x. track_id t = Some (spotify_id x) \<and>
                              popularity x = popularity_or_0 t \<and>
                              selection_reason x =
                                ''Deep cut: popularity '' @
                                  (case track_popularity t of
                                     None \<Rightarrow> ''unknown'' | Some p \<Rightarrow> str_int p))
              selected r"
    if "DeepCuts_select m draws tracks pd cnt = Inr r" for r
  proof -
    from that have "list_all2 (\<lambda>t x. track_to_model (DeepCuts_name m) t (deep_cut_reason t) = Inr x)
        selected r"
      unfolding sel map_result_Inr_iff .
    then show ?thesis
      by (rule list_all2_mono) (auto dest: track_to_model_Inr simp: deep_cut_reason_def)
  qed
  from s p sel res show "\<exists>selected.
         (if int (length (deep_cuts_pool m tracks cnt)) \<le> cnt then Inr (deep_cuts_pool m tracks cnt)
          else random_sample draws (deep_cuts_pool m tracks cnt) cnt) = Inr selected \<and>
         (int (length (deep_cuts_pool m tracks cnt)) \<le> cnt \<longrightarrow>
            selected = deep_cuts_pool m tracks cnt) \<and>
         (cnt < int (length (deep_cuts_pool m tracks cnt)) \<longrightarrow> length selected = nat cnt) \<and>
         mset selected \<subseteq># mset (deep_cuts_pool m tracks cnt) \<and>
         DeepCuts_select m draws tracks pd cnt =
           map_result (\<lambda>t. track_to_model (DeepCuts_name m) t (deep_cut_reason t)) selected \<and>
         (\<forall>r. DeepCuts_select m draws tracks pd cnt = Inr r \<longrightarrow>
            list_all2 (\<lambda>t x. track_id t = Some (spotify_id x) \<and>
                              popularity x = popularity_or_0 t \<and>
                              selection_reason x =
                                ''Deep cut: popularity '' @
                                  (case track_popularity t of
                                     None \<Rightarrow> ''unknown'' | Some p \<Rightarrow> str_int p))
              selected r)"
    by blast
qed


lemma sample_popular_well_formed: "0 \<le> p \<Longrightarrow> p \<le> 100 \<Longrightarrow> well_formed_track (sample_track i None (Some p))"
  by (simp add: well_formed_track_def sample_track_sel py_int_empty)

lemma str_int_55: "str_int 55 = ''55''"
  by (simp add: str_int_def str_nat_small str_nat_big digit_char_def)

theorem C4_deep_cuts_witness:
  "deep_cuts_pool 60
     [sample_track ''p10'' None (Some 10), sample_track ''p70'' None (Some 70),
      sample_track ''p55'' None (Some 55), sample_track ''p90'' None (Some 90),
      sample_track ''p40'' None (Some 40)] 2 =
     [sample_track ''p10'' None (Some 10), sample_track ''p55'' None (Some 55),
      sample_track ''p40'' None (Some 40)] \<and>
   (\<exists>m1 m2.
      DeepCuts_select 60 [1, 1]
        [sample_track ''p10'' None (Some 10), sample_track ''p70'' None (Some 70),
         sample_track ''p55'' None (Some 55), sample_track ''p90'' None (Some 90),
         sample_track ''p40'' None (Some 40)] None 2 = Inr [m1, m2] \<and>
      spotify_id m1 = ''p55'' \<and> spotify_id m2 = ''p40'' \<and>
      selection_reason m1 = ''Deep cut: popularity 55'')"
proof -
  let ?p10 = "sample_track ''p10'' None (Some 10)"
  let ?p70 = "sample_track ''p70'' None (Some 70)"
  let ?p55 = "sample_track ''p55'' None (Some 55)"
  let ?p90 = "sample_track ''p90'' None (Some 90)"
  let ?p40 = "sample_track ''p40'' None (Some 40)"
  let ?ts = "[?p10, ?p70, ?p55, ?p90, ?p40]"
  note c4 = C4_deep_cuts [where m = 60 and tracks = ?ts and cnt = 2 and draws = "[1, 1]" and pd = None]
  note c4 = c4 [THEN conjunct2, THEN conjunct2]
  have cand: "deep_cuts_candidates 60 ?ts = [?p10, ?p55, ?p40]"
    unfolding c4 [THEN conjunct1] by (simp add: sample_track_sel)
  have pool: "deep_cuts_pool 60 ?ts 2 = [?p10, ?p55, ?p40]"
    unfolding c4 [THEN conjunct2, THEN conjunct1] cand by simp
  have nn: "(0::int) \<le> 2" by simp
  from c4 [THEN conjunct2, THEN conjunct2, THEN conjunct2, THEN conjunct2, THEN mp, OF nn,
      THEN conjunct2, unfolded pool]
  obtain selected where
    s: "(if int (length [?p10, ?p55, ?p40]) \<le> 2 then Inr [?p10, ?p55, ?p40]
         else random_sample [1, 1] [?p10, ?p55, ?p40] 2) = Inr selected"
    and sel: "DeepCuts_select 60 [1, 1] ?ts None 2 =
           map_result (\<lambda>t. track_to_model (DeepCuts_name 60) t (deep_cut_reason t)) selected"
    by blast
  have "random_sample [1, 1] [?p10, ?p55, ?p40] 2 = Inr [?p55, ?p40]"
    by (simp add: random_sample_def numeral_2_eq_2)
  with s have selected: "selected = [?p55, ?p40]" by simp
  from track_to_model_ok [OF sample_popular_well_formed, of 55 "DeepCuts_name 60" "''p55''"
      "deep_cut_reason ?p55"]
  obtain m1 where m1: "track_to_model (DeepCuts_name 60) ?p55 (deep_cut_reason ?p55) = Inr m1"
    and i1: "track_id ?p55 = Some (spotify_id m1)"
    and r1: "selection_reason m1 = deep_cut_reason ?p55"
    by auto
  from track_to_model_ok [OF sample_popular_well_formed, of 40 "DeepCuts_name 60" "''p40''"
      "deep_cut_reason ?p40"]
  obtain m2 where m2: "track_to_model (DeepCuts_name 60) ?p40 (deep_cut_reason ?p40) = Inr m2"
    and i2: "track_id ?p40 = Some (spotify_id m2)"
    by auto
  have res: "DeepCuts_select 60 [1, 1] ?ts None 2 = Inr [m1, m2]"
    unfolding sel selected map_result.simps m1 m2 by simp
  have ids: "spotify_id m1 = ''p55''" "spotify_id m2 = ''p40''"
    using i1 i2 by (simp_all add: sample_track_sel)
  have rs: "selection_reason m1 = ''Deep cut: popularity 55''"
    unfolding r1 by (simp add: deep_cut_reason_def sample_track_sel str_int_55)
  show ?thesis
    by (intro conjI pool exI [of _ m1] exI [of _ m2] res ids rs)
qed


subsection \<open>All strategies\<close>











text \<open>
  Outside the well-formed tracks: a release date that is one run of more than ten digits
  passes \<^verbatim>\<open>isdigit\<close>, and \<^verbatim>\<open>date\<close> raises an \<^verbatim>\<open>OverflowError\<close> that the \<^verbatim>\<open>try\<close> block does not
  catch.
\<close>

lemma track_to_model_long_digits:
  "track_to_model n (sample_track ''x'' (Some ''20240101120000'') (Some 10)) r =
     Inl (OverflowError ''Python int too large to convert to C int'')"
proof -
  have "py_int ''20240101120000'' = Some 20240101120000"
    by (simp add: py_int_def strip_def is_space_def int_body_def digit_of_def)
  then have "parse_release_date ''20240101120000'' =
      Inl (OverflowError ''Python int too large to convert to C int'')"
    by (simp add: parse_release_date_def isdigit_def digit_of_def caught_def date_new_def c_int_ok_def)
  then show ?thesis by (simp add: track_to_model_def sample_track_sel)
qed




subsection \<open>Tracks without a popularity\<close>

text \<open>
  Claim C10, as amended. In the deep-cuts strategy a track without a popularity counts as
  popularity 0. It is a candidate, and in the pool, whenever the configured ceiling is at
  least 0; and in the catalog sorted by ascending popularity, which the fallback for an
  empty candidate list uses, it comes before every track of positive popularity.
\<close>

theorem C10_missing_popularity:
  "(track_popularity t = None \<longrightarrow> popularity_or_0 t = 0) \<and>
   (track_popularity t = None \<and> t \<in> set tracks \<and> 0 \<le> m \<longrightarrow>
      t \<in> set (deep_cuts_candidates m tracks) \<and> t \<in> set (deep_cuts_pool m tracks cnt)) \<and>
   (i < length tracks \<and> j < length tracks \<and>
    track_popularity (sort_key popularity_or_0 tracks ! i) = None \<and>
    0 < popularity_or_0 (sort_key popularity_or_0 tracks ! j) \<longrightarrow> i < j)"
proof (intro conjI impI)
  assume "track_popularity t = None"
  then show "popularity_or_0 t = 0" by (simp add: popularity_or_0_def)
next
  assume a: "track_popularity t = None \<and> t \<in> set tracks \<and> 0 \<le> m"
  then show c: "t \<in> set (deep_cuts_candidates m tracks)"
    by (simp add: deep_cuts_candidates_def popularity_or_0_def)
  then have "deep_cuts_candidates m tracks \<noteq> []" by auto
  then show "t \<in> set (deep_cuts_pool m tracks cnt)" using c by (simp add: deep_cuts_pool_def)
next
  let ?S = "sort_key popularity_or_0 tracks"
  assume a: "i < length tracks \<and> j < length tracks \<and> track_popularity (?S ! i) = None \<and>
    0 < popularity_or_0 (?S ! j)"
  show "i < j"
  proof (rule ccontr)
    assume "\<not> i < j"
    then have "j \<le> i" by simp
    have "sorted (map popularity_or_0 ?S)" by simp
    from sorted_nth_mono [OF this, of j i] \<open>j \<le> i\<close> a
    have "popularity_or_0 (?S ! j) \<le> popularity_or_0 (?S ! i)" by simp
    then show False using a by (simp add: popularity_or_0_def)
  qed
qed

theorem C10_missing_popularity_witness:
  "popularity_or_0 (sample_track ''x'' None None) = 0 \<and>
   sample_track ''x'' None None \<in>
     set (deep_cuts_candidates 0
            [sample_track ''p40'' None (Some 40), sample_track ''x'' None None,
             sample_track ''p10'' None (Some 10)]) \<and>
   sample_track ''x'' None None \<in>
     set (deep_cuts_pool 0
            [sample_track ''p40'' None (Some 40), sample_track ''x'' None None,
             sample_track ''p10'' None (Some 10)] 1) \<and>
   sort_key popularity_or_0
     [sample_track ''p40'' None (Some 40), sample_track ''x'' None None,
      sample_track ''p10'' None (Some 10)] =
     [sample_track ''x'' None None, sample_track ''p10'' None (Some 10),
      sample_track ''p40'' None (Some 40)] \<and>
   (0::nat) < 2"
proof -
  let ?x = "sample_track ''x'' None None"
  let ?ts = "[sample_track ''p40'' None (Some 40), ?x, sample_track ''p10'' None (Some 10)]"
  note c10 = C10_missing_popularity [where t = ?x and tracks = ?ts and m = 0 and cnt = 1
      and i = 0 and j = 2]
  have np: "track_popularity ?x = None" by (simp add: sample_track_sel)
  have h2: "track_popularity ?x = None \<and> ?x \<in> set ?ts \<and> (0::int) \<le> 0" by (simp add: np)
  have srt: "sort_key popularity_or_0 ?ts =
      [?x, sample_track ''p10'' None (Some 10), sample_track ''p40'' None (Some 40)]"
    by (simp add: sample_track_sel)
  have h3: "0 < length ?ts \<and> 2 < length ?ts \<and>
      track_popularity (sort_key popularity_or_0 ?ts ! 0) = None \<and>
      0 < popularity_or_0 (sort_key popularity_or_0 ?ts ! 2)"
    unfolding srt by (simp add: sample_track_sel)
  show ?thesis
    by (intro conjI c10 [THEN conjunct1, THEN mp, OF np]
        c10 [THEN conjunct2, THEN conjunct1, THEN mp, OF h2, THEN conjunct1]
        c10 [THEN conjunct2, THEN conjunct1, THEN mp, OF h2, THEN conjunct2]
        srt c10 [THEN conjunct2, THEN conjunct2, THEN mp, OF h3])
qed

text \<open>
  With a negative ceiling the track without a popularity is not a candidate, so it does not
  qualify whatever the ceiling.
\<close>

theorem C10_missing_popularity_counterexample:
  "track_popularity (sample_track ''x'' None None) = None \<and>
   sample_track ''x'' None None \<in> set [sample_track ''x'' None None] \<and>
   sample_track ''x'' None None \<notin> set (deep_cuts_candidates (- 1) [sample_track ''x'' None None]) \<and>
   deep_cuts_candidates (- 1) [sample_track ''x'' None None] = []"
  by (simp add: deep_cuts_candidates_def sample_track_sel)

end
